theory Spec2Isabelle
  imports Main "HOL-Library.Sublist"
begin

section \<open>Python string operations used by the two facade components\<close>

text \<open>
  A Python \<open>str\<close> is modelled as a \<open>string\<close>: a list of characters with code points
  0 to 255. The operations below follow the built-ins the source calls:
  \<open>str.split(sep)\<close>, \<open>str.replace(old, new)\<close>, \<open>str.strip()\<close>, \<open>sep.join(xs)\<close>
  and \<open>re.split(r'[.!?]+', text)\<close>.
\<close>

text \<open>
  \<open>s.split(sep)\<close> scans from the left and cuts at every non-overlapping occurrence of
  \<open>sep\<close>; \<open>cur\<close> is the piece collected since the last cut. Python raises on an
  empty separator; the source only splits on the literals \<open>"/"\<close>, \<open>"## Summary"\<close> and
  the newline, so that case is never reached and no cut is made there.
\<close>

function py_split_from :: "string \<Rightarrow> string \<Rightarrow> string \<Rightarrow> string list" where
  "py_split_from sep cur [] = [cur]"
| "py_split_from sep cur (x # xs) =
     (if sep \<noteq> [] \<and> prefix sep (x # xs)
      then cur # py_split_from sep [] (drop (length sep) (x # xs))
      else py_split_from sep (cur @ [x]) xs)"
  by pat_completeness auto
termination
  by (relation "measure (\<lambda>(sep, cur, s). length s)") auto

definition py_split :: "string \<Rightarrow> string \<Rightarrow> string list" where
  "py_split s sep = py_split_from sep [] s"

text \<open>\<open>s.replace(old, new)\<close>: every non-overlapping occurrence, from the left.\<close>

function py_replace :: "string \<Rightarrow> string \<Rightarrow> string \<Rightarrow> string" where
  "py_replace old new [] = []"
| "py_replace old new (x # xs) =
     (if old \<noteq> [] \<and> prefix old (x # xs)
      then new @ py_replace old new (drop (length old) (x # xs))
      else x # py_replace old new xs)"
  by pat_completeness auto
termination
  by (relation "measure (\<lambda>(old, new, s). length s)") auto

text \<open>
  \<open>str.isspace\<close> on the code points 0 to 255: tab, line feed, vertical tab, form feed,
  carriage return, the four separators 28 to 31, space, NEL (133) and the no-break
  space (160).
\<close>

definition py_isspace :: "char \<Rightarrow> bool" where
  "py_isspace c \<longleftrightarrow>
     (of_char c :: nat) \<in> {9, 10, 11, 12, 13, 28, 29, 30, 31, 32, 133, 160}"

definition py_strip :: "string \<Rightarrow> string" where
  "py_strip s = rev (dropWhile py_isspace (rev (dropWhile py_isspace s)))"

fun py_join :: "string \<Rightarrow> string list \<Rightarrow> string" where
  "py_join sep [] = []"
| "py_join sep [x] = x"
| "py_join sep (x # y # ys) = x @ sep @ py_join sep (y # ys)"

text \<open>
  \<open>re.split(r'[.!?]+', text)\<close>: every maximal run of the three delimiters is one
  separator; the pieces between the runs are returned, empty ones included.
\<close>

definition is_sentence_delim :: "char \<Rightarrow> bool" where
  "is_sentence_delim c \<longleftrightarrow> c = CHR ''.'' \<or> c = CHR ''!'' \<or> c = CHR ''?''"

function re_split_sentences_from :: "string \<Rightarrow> string \<Rightarrow> string list" where
  "re_split_sentences_from cur [] = [cur]"
| "re_split_sentences_from cur (x # xs) =
     (if is_sentence_delim x
      then cur # re_split_sentences_from [] (dropWhile is_sentence_delim xs)
      else re_split_sentences_from (cur @ [x]) xs)"
  by pat_completeness auto
termination
  by (relation "measure (\<lambda>(cur, s). length s)")
     (auto simp: length_dropWhile_le less_Suc_eq_le)

definition re_split_sentences :: "string \<Rightarrow> string list" where
  "re_split_sentences text = re_split_sentences_from [] text"

section \<open>Errors\<close>

text \<open>
  A \<open>GithubException\<close> of the PyGithub library carries the HTTP status, the decoded
  response body \<open>data\<close> and its own text \<open>str(e)\<close>. The body is a dictionary, or \<open>None\<close>
  when the response had no body.
\<close>

record gh_exception =
  gh_status :: nat
  gh_data :: "(string \<rightharpoonup> string) option"
  gh_str :: string

text \<open>
  What a caller can see raised: \<open>ValueError(msg)\<close>, a plain \<open>Exception(msg)\<close> built by
  one of the handlers, a \<open>GithubException\<close> that no handler caught, an
  \<open>AttributeError\<close> (kept with the name of the attribute that is missing) and
  \<open>UnicodeDecodeError\<close> from \<open>bytes.decode\<close>.
\<close>

datatype py_error =
    ValueError string
  | Exception string
  | GithubException gh_exception
  | AttributeError string
  | UnicodeDecodeError

text \<open>
  The statement every handler of the client ends in,
  \<open>raise Exception(f"<label>{e.data.get('message', str(e))}")\<close>. On a dictionary the
  message is the entry \<open>message\<close>, or \<open>str(e)\<close> when there is none. On \<open>None\<close> the
  lookup of \<open>get\<close> raises \<open>AttributeError\<close> inside the handler, and that is what leaves it.
\<close>

definition raise_wrapped :: "string \<Rightarrow> gh_exception \<Rightarrow> py_error" where
  "raise_wrapped label e =
     (case gh_data e of
        None \<Rightarrow> AttributeError ''get''
      | Some d \<Rightarrow> Exception (label @ (case d ''message'' of Some m \<Rightarrow> m | None \<Rightarrow> gh_str e)))"

section \<open>Repository identifier validation (\<open>GitHubClient._validate_repo_name\<close>)\<close>

definition invalid_repo_msg :: string where
  "invalid_repo_msg =
     ''Invalid repository name. Must be in format '' @ [CHR 0x27] @ ''username/repo'' @ [CHR 0x27]"

definition validate_repo_name :: "string \<Rightarrow> py_error + unit" where
  "validate_repo_name repo_full_name =
     (if repo_full_name = [] \<or> \<not> (CHR ''/'' \<in> set repo_full_name)
      then Inl (ValueError invalid_repo_msg)
      else
        (let parts = py_split repo_full_name ''/'' in
         if length parts \<noteq> 2 \<or> \<not> (\<forall>p \<in> set parts. p \<noteq> [])
         then Inl (ValueError invalid_repo_msg)
         else Inr ()))"

section \<open>The source-hosting provider as seen by the client\<close>

text \<open>
  The attributes the source reads from the PyGithub objects \<open>Repository\<close>, \<open>Issue\<close>,
  \<open>ContentFile\<close>, and from the dictionary \<open>{"commit": ..., "content": ...}\<close> that
  \<open>create_file\<close> and \<open>update_file\<close> return. Python \<open>bytes\<close> are lists of 8-bit
  characters.
\<close>

type_synonym bytes = "char list"

record repository =
  rp_full_name :: string
  rp_name :: string
  rp_html_url :: string
  rp_private :: bool
  rp_description :: "string option"

record issue =
  issue_number :: nat
  issue_html_url :: string
  issue_title :: string
  issue_state :: string

record content_file =
  cf_path :: string
  cf_sha :: string
  cf_decoded_content :: bytes
  cf_html_url :: string
  cf_size :: nat

text \<open>
  \<open>get_contents\<close> returns one \<open>ContentFile\<close> for a file and a list of them for a
  directory.
\<close>

datatype contents = ContentFile content_file | ContentList "content_file list"

record write_result =
  wr_commit_sha :: string
  wr_content_html_url :: string

text \<open>
  Every provider operation is one network round trip: it reads and changes the remote
  world \<open>'w\<close> and either raises a \<open>GithubException\<close> or returns. The handle
  \<open>Github(token)\<close> is a record of these operations; the arguments are those the source
  passes, in the order it names them.
\<close>

record 'w github_api =
  user_create_repo ::
    "string \<Rightarrow> bool \<Rightarrow> string \<Rightarrow> bool \<Rightarrow> 'w \<Rightarrow> (gh_exception + repository) \<times> 'w"
  github_get_repo :: "string \<Rightarrow> 'w \<Rightarrow> (gh_exception + repository) \<times> 'w"
  repo_create_issue ::
    "repository \<Rightarrow> string \<Rightarrow> string \<Rightarrow> 'w \<Rightarrow> (gh_exception + issue) \<times> 'w"
  repo_get_issues :: "repository \<Rightarrow> string \<Rightarrow> 'w \<Rightarrow> (gh_exception + issue list) \<times> 'w"
  repo_get_contents :: "repository \<Rightarrow> string \<Rightarrow> 'w \<Rightarrow> (gh_exception + contents) \<times> 'w"
  repo_update_file ::
    "repository \<Rightarrow> string \<Rightarrow> string \<Rightarrow> string \<Rightarrow> string \<Rightarrow> 'w
       \<Rightarrow> (gh_exception + write_result) \<times> 'w"
  repo_create_file ::
    "repository \<Rightarrow> string \<Rightarrow> string \<Rightarrow> string \<Rightarrow> 'w \<Rightarrow> (gh_exception + write_result) \<times> 'w"

text \<open>
  The network calls a run makes are recorded in order, next to the remote world.
  Repository-level calls are logged with the full name of the repository object.
\<close>

datatype call =
    CreateRepo string bool string bool
  | GetRepo string
  | CreateIssue string string string
  | GetIssues string string
  | GetContents string string
  | UpdateFile string string string string string
  | CreateFile string string string string
  | GenerateContent string
  | TextToSpeech string string string

record 'w net =
  calls :: "call list"
  world :: 'w

definition perform :: "call \<Rightarrow> ('w \<Rightarrow> 'r \<times> 'w) \<Rightarrow> 'w net \<Rightarrow> 'r \<times> 'w net" where
  "perform c f s = (case f (world s) of (r, w') \<Rightarrow> (r, \<lparr>calls = calls s @ [c], world = w'\<rparr>))"

section \<open>\<open>GitHubClient\<close>\<close>

text \<open>
  \<open>a or b\<close> on optional strings: \<open>None\<close> and the empty string are false.
\<close>

definition py_truthy :: "string option \<Rightarrow> bool" where
  "py_truthy v = (case v of None \<Rightarrow> False | Some t \<Rightarrow> t \<noteq> [])"

definition py_or :: "string option \<Rightarrow> string option \<Rightarrow> string option" where
  "py_or a b = (if py_truthy a then a else b)"

record 'w github_client =
  client_token :: string
  github :: "'w github_api"

text \<open>
  \<open>GitHubClient.__init__(token)\<close>. \<open>Github\<close> is the library's constructor of the
  handle from the token; \<open>environ\<close> is \<open>os.environ\<close>. The user handle of
  \<open>get_user()\<close> is the \<open>user_create_repo\<close> field of the same record.
\<close>

definition github_client_init ::
  "(string \<Rightarrow> 'w github_api) \<Rightarrow> (string \<rightharpoonup> string) \<Rightarrow> string option
     \<Rightarrow> py_error + 'w github_client" where
  "github_client_init Github environ token =
     (let tok = py_or token (environ ''GITHUB_TOKEN'') in
      case tok of
        None \<Rightarrow> Inl (ValueError ''GitHub token not provided. Set GITHUB_TOKEN environment variable.'')
      | Some t \<Rightarrow>
          if t = []
          then Inl (ValueError ''GitHub token not provided. Set GITHUB_TOKEN environment variable.'')
          else Inr \<lparr>client_token = t, github = Github t\<rparr>)"

record repo_dict =
  rd_name :: string
  rd_url :: string
  rd_private :: bool
  rd_description :: "string option"

record issue_dict =
  id_number :: nat
  id_url :: string
  id_title :: string
  id_state :: string

record commit_dict =
  cd_commit_sha :: string
  cd_url :: string
  cd_action :: string
  cd_path :: string

record file_dict =
  fd_path :: string
  fd_content :: string
  fd_url :: string
  fd_size :: nat

definition create_repo ::
  "'w github_client \<Rightarrow> string \<Rightarrow> bool \<Rightarrow> string \<Rightarrow> 'w net \<Rightarrow> (py_error + repo_dict) \<times> 'w net" where
  "create_repo self name private description s =
     (case perform (CreateRepo name private description True)
             (user_create_repo (github self) name private description True) s of
        (Inl e, s1) \<Rightarrow> (Inl (raise_wrapped ''Failed to create repository: '' e), s1)
      | (Inr repo, s1) \<Rightarrow>
          (Inr \<lparr>rd_name = rp_name repo, rd_url = rp_html_url repo,
                rd_private = rp_private repo, rd_description = rp_description repo\<rparr>, s1))"

definition issue_to_dict :: "issue \<Rightarrow> issue_dict" where
  "issue_to_dict i =
     \<lparr>id_number = issue_number i, id_url = issue_html_url i,
      id_title = issue_title i, id_state = issue_state i\<rparr>"

definition create_issue ::
  "'w github_client \<Rightarrow> string \<Rightarrow> string \<Rightarrow> string \<Rightarrow> 'w net
     \<Rightarrow> (py_error + issue_dict) \<times> 'w net" where
  "create_issue self repo_full_name title body s =
     (case validate_repo_name repo_full_name of
        Inl e \<Rightarrow> (Inl e, s)
      | Inr _ \<Rightarrow>
          (case perform (GetRepo repo_full_name) (github_get_repo (github self) repo_full_name) s of
             (Inl e, s1) \<Rightarrow> (Inl (raise_wrapped ''Failed to create issue: '' e), s1)
           | (Inr repo, s1) \<Rightarrow>
               (case perform (CreateIssue (rp_full_name repo) title body)
                       (repo_create_issue (github self) repo title body) s1 of
                  (Inl e, s2) \<Rightarrow>
                    (Inl (raise_wrapped ''Failed to create issue: '' e), s2)
                | (Inr i, s2) \<Rightarrow> (Inr (issue_to_dict i), s2))))"

definition list_issues ::
  "'w github_client \<Rightarrow> string \<Rightarrow> string \<Rightarrow> 'w net \<Rightarrow> (py_error + issue_dict list) \<times> 'w net" where
  "list_issues self repo_full_name state s =
     (case validate_repo_name repo_full_name of
        Inl e \<Rightarrow> (Inl e, s)
      | Inr _ \<Rightarrow>
          (case perform (GetRepo repo_full_name) (github_get_repo (github self) repo_full_name) s of
             (Inl e, s1) \<Rightarrow> (Inl (raise_wrapped ''Failed to list issues: '' e), s1)
           | (Inr repo, s1) \<Rightarrow>
               (case perform (GetIssues (rp_full_name repo) state)
                       (repo_get_issues (github self) repo state) s1 of
                  (Inl e, s2) \<Rightarrow>
                    (Inl (raise_wrapped ''Failed to list issues: '' e), s2)
                | (Inr issues, s2) \<Rightarrow> (Inr (map issue_to_dict issues), s2))))"

text \<open>
  The inner \<open>try\<close> of \<open>commit_file\<close>: \<open>get_contents\<close> and \<open>update_file\<close> are both inside
  it, so its handler sees a \<open>GithubException\<close> of either call. On status 404 the handler
  calls \<open>create_file\<close>, otherwise it re-raises. On a directory listing the read of
  \<open>existing_file.sha\<close> raises \<open>AttributeError\<close>, which no handler of \<open>commit_file\<close>
  catches. The result is the provider's write result with the action; a
  \<open>GithubException\<close> that leaves the inner \<open>try\<close> is still to pass the outer handler.
\<close>

definition commit_file_write ::
  "'w github_client \<Rightarrow> repository \<Rightarrow> string \<Rightarrow> string \<Rightarrow> string \<Rightarrow> 'w net
     \<Rightarrow> (py_error + write_result \<times> string) \<times> 'w net" where
  "commit_file_write self repo path content message s =
     (case
        (case perform (GetContents (rp_full_name repo) path)
                (repo_get_contents (github self) repo path) s of
           (Inl e, s1) \<Rightarrow> (Inl (GithubException e), s1)
         | (Inr (ContentList entries), s1) \<Rightarrow> (Inl (AttributeError ''sha''), s1)
         | (Inr (ContentFile existing_file), s1) \<Rightarrow>
             (case perform
                     (UpdateFile (rp_full_name repo) path message content
                        (cf_sha existing_file))
                     (repo_update_file (github self) repo path message content
                        (cf_sha existing_file)) s1 of
                (Inl e, s2) \<Rightarrow> (Inl (GithubException e), s2)
              | (Inr result, s2) \<Rightarrow> (Inr (result, ''updated''), s2)))
      of
        (Inr ra, s') \<Rightarrow> (Inr ra, s')
      | (Inl (GithubException e), s') \<Rightarrow>
          if gh_status e = 404
          then
            (case perform (CreateFile (rp_full_name repo) path message content)
                    (repo_create_file (github self) repo path message content) s' of
               (Inl e', s'') \<Rightarrow> (Inl (GithubException e'), s'')
             | (Inr result, s'') \<Rightarrow> (Inr (result, ''created''), s''))
          else (Inl (GithubException e), s')
      | (Inl err, s') \<Rightarrow> (Inl err, s'))"

definition commit_file ::
  "'w github_client \<Rightarrow> string \<Rightarrow> string \<Rightarrow> string \<Rightarrow> string \<Rightarrow> 'w net
     \<Rightarrow> (py_error + commit_dict) \<times> 'w net" where
  "commit_file self repo_full_name path content message s =
     (case validate_repo_name repo_full_name of
        Inl e \<Rightarrow> (Inl e, s)
      | Inr _ \<Rightarrow>
          (case perform (GetRepo repo_full_name) (github_get_repo (github self) repo_full_name) s of
             (Inl e, s1) \<Rightarrow> (Inl (raise_wrapped ''Failed to commit file: '' e), s1)
           | (Inr repo, s1) \<Rightarrow>
               (case commit_file_write self repo path content message s1 of
                  (Inl (GithubException e), s2) \<Rightarrow>
                    (Inl (raise_wrapped ''Failed to commit file: '' e), s2)
                | (Inl err, s2) \<Rightarrow> (Inl err, s2)
                | (Inr (result, action), s2) \<Rightarrow>
                    (Inr \<lparr>cd_commit_sha = wr_commit_sha result,
                          cd_url = wr_content_html_url result,
                          cd_action = action, cd_path = path\<rparr>, s2))))"

text \<open>
  \<open>read_file\<close>. \<open>utf8_decode\<close> is Python's \<open>bytes.decode('utf-8')\<close>, a built-in of the
  language and a parameter here; \<open>None\<close> is its \<open>UnicodeDecodeError\<close>, which no handler
  of \<open>read_file\<close> catches. The handler tests the status before it touches \<open>e.data\<close>. On
  a directory listing the read of \<open>file_content.path\<close> raises \<open>AttributeError\<close>.
\<close>

definition read_file ::
  "(bytes \<Rightarrow> string option) \<Rightarrow> 'w github_client \<Rightarrow> string \<Rightarrow> string \<Rightarrow> 'w net
     \<Rightarrow> (py_error + file_dict) \<times> 'w net" where
  "read_file utf8_decode self repo_full_name path s =
     (let handler = (\<lambda>e. if gh_status e = 404
                          then Exception (''File not found: '' @ path)
                          else raise_wrapped ''Failed to read file: '' e) in
      case validate_repo_name repo_full_name of
        Inl e \<Rightarrow> (Inl e, s)
      | Inr _ \<Rightarrow>
          (case perform (GetRepo repo_full_name) (github_get_repo (github self) repo_full_name) s of
             (Inl e, s1) \<Rightarrow> (Inl (handler e), s1)
           | (Inr repo, s1) \<Rightarrow>
               (case perform (GetContents (rp_full_name repo) path)
                       (repo_get_contents (github self) repo path) s1 of
                  (Inl e, s2) \<Rightarrow> (Inl (handler e), s2)
                | (Inr (ContentList entries), s2) \<Rightarrow> (Inl (AttributeError ''path''), s2)
                | (Inr (ContentFile file_content), s2) \<Rightarrow>
                    (case utf8_decode (cf_decoded_content file_content) of
                       None \<Rightarrow> (Inl UnicodeDecodeError, s2)
                     | Some text \<Rightarrow>
                         (Inr \<lparr>fd_path = cf_path file_content, fd_content = text,
                               fd_url = cf_html_url file_content,
                               fd_size = cf_size file_content\<rparr>, s2)))))"

section \<open>The dispatch handler \<open>mcp_create_repo\<close> (app.py)\<close>

text \<open>
  \<open>get_github_client\<close> turns the \<open>ValueError\<close> of the constructor, its only failure,
  into \<open>None\<close>. A handler returns either the dictionary \<open>{"error": msg}\<close> or the
  client's result.
\<close>

definition get_github_client ::
  "(string \<Rightarrow> 'w github_api) \<Rightarrow> (string \<rightharpoonup> string) \<Rightarrow> string option
     \<Rightarrow> 'w github_client option" where
  "get_github_client Github environ token =
     (case github_client_init Github environ token of
        Inl e \<Rightarrow> None
      | Inr client \<Rightarrow> Some client)"

datatype 'a mcp_result = ErrorDict string | Result 'a

definition mcp_create_repo ::
  "(string \<Rightarrow> 'w github_api) \<Rightarrow> (string \<rightharpoonup> string) \<Rightarrow> string \<Rightarrow> string \<Rightarrow> string option
     \<Rightarrow> 'w net \<Rightarrow> (py_error + repo_dict mcp_result) \<times> 'w net" where
  "mcp_create_repo Github environ name description token s =
     (case get_github_client Github environ token of
        None \<Rightarrow> (Inr (ErrorDict ''GitHub token not configured''), s)
      | Some client \<Rightarrow>
          (case create_repo client name False description s of
             (Inl e, s1) \<Rightarrow> (Inl e, s1)
           | (Inr d, s1) \<Rightarrow> (Inr (Result d), s1)))"

section \<open>\<open>AIDocumentationGenerator\<close>\<close>

text \<open>
  The two provider handles: \<open>GenerativeModel.generate_content(prompt)\<close> followed by
  \<open>response.text\<close>, and \<open>text_to_speech.convert(text, voice_id, model_id)\<close> with its chunk
  sequence consumed. Either raises an exception, kept as its text \<open>str(e)\<close>, or
  returns. The SDK constructors build a handle from the key.
\<close>

type_synonym 'w gemini_handle = "string \<Rightarrow> 'w \<Rightarrow> (string + string) \<times> 'w"
type_synonym 'w elevenlabs_handle =
  "string \<Rightarrow> string \<Rightarrow> string \<Rightarrow> 'w \<Rightarrow> (string + bytes list) \<times> 'w"

record 'w ai_sdk =
  GenerativeModel :: "string \<Rightarrow> string \<Rightarrow> 'w gemini_handle"
  ElevenLabs :: "string \<Rightarrow> 'w elevenlabs_handle"

record 'w ai_documentation_generator =
  gemini_key :: "string option"
  gemini_model :: "'w gemini_handle option"
  elevenlabs_key :: "string option"
  elevenlabs_client :: "'w elevenlabs_handle option"

text \<open>
  \<open>AIDocumentationGenerator.__init__(user_gemini_key)\<close>: the only parameter is the
  Gemini key; the ElevenLabs key is read from the environment.
\<close>

definition ai_documentation_generator_init ::
  "'w ai_sdk \<Rightarrow> (string \<rightharpoonup> string) \<Rightarrow> string option \<Rightarrow> 'w ai_documentation_generator" where
  "ai_documentation_generator_init sdk environ user_gemini_key =
     (let gkey = py_or user_gemini_key (environ ''GEMINI_API_KEY'');
          ekey = environ ''ELEVENLABS_API_KEY''
      in \<lparr>gemini_key = gkey,
          gemini_model =
            (case gkey of
               None \<Rightarrow> None
             | Some k \<Rightarrow> if k = [] then None else Some (GenerativeModel sdk k ''gemini-2.5-flash'')),
          elevenlabs_key = ekey,
          elevenlabs_client =
            (case ekey of
               None \<Rightarrow> None
             | Some k \<Rightarrow> if k = [] then None else Some (ElevenLabs sdk k))\<rparr>)"

text \<open>The prompt of \<open>generate_documentation\<close>, line by line; every line ends with a newline.\<close>

definition build_prompt :: "string \<Rightarrow> string \<Rightarrow> string \<Rightarrow> string" where
  "build_prompt code_content language filename =
     concat (map (\<lambda>l. l @ [CHR 0x0A])
       [''Analyze this '' @ language @ '' code from file '' @ [CHR 0x22] @ filename
          @ [CHR 0x22] @ '':'',
        [],
        ''```'' @ language,
        code_content,
        ''```'',
        [],
        ''Generate comprehensive documentation in README markdown format with these sections:'',
        ''1. **Overview** - What this code does (2-3 sentences)'',
        ''2. **Key Components** - Main functions/classes with brief descriptions'',
        ''3. **Usage Examples** - How to use this code (with code blocks)'',
        ''4. **Dependencies** - Required libraries/packages'',
        ''5. **Installation** - Setup instructions'',
        [],
        ''Then provide a STRICT 2-LINE SUMMARY (maximum 2 sentences, around 150-200 characters total) that captures the essence of this code.'',
        [],
        ''Format your response EXACTLY like this:'',
        [],
        ''## Documentation'',
        [],
        ''[Full documentation here in markdown format]'',
        [],
        ''## Summary'',
        [],
        ''[Exactly 2 lines/sentences here - be concise and clear]''])"

record doc_dict =
  documentation :: string
  summary :: string

text \<open>\<open>_extract_summary_fallback\<close>\<close>

definition extract_summary_fallback :: "string \<Rightarrow> string" where
  "extract_summary_fallback text =
     (let sentences = re_split_sentences text;
          sentences = map py_strip (filter (\<lambda>s. py_strip s \<noteq> []) sentences)
      in py_join ''. '' (take 2 sentences) @ ''.'')"

text \<open>
  The parsing step of \<open>generate_documentation\<close> (the statements between reading
  \<open>response.text\<close> and the \<open>return\<close>): \<open>len(parts) == 2\<close> selects the two-part branch.
\<close>

definition parse_response :: "string \<Rightarrow> doc_dict" where
  "parse_response full_response =
     (case py_split full_response ''## Summary'' of
        [part0, part1] \<Rightarrow>
          (let doc = py_strip (py_replace ''## Documentation'' [] part0);
               summ = py_strip part1;
               summary_lines =
                 map py_strip (filter (\<lambda>line. py_strip line \<noteq> []) (py_split summ [CHR 0x0A]))
           in \<lparr>documentation = doc, summary = py_join '' '' (take 2 summary_lines)\<rparr>)
      | _ \<Rightarrow>
          \<lparr>documentation = full_response, summary = extract_summary_fallback full_response\<rparr>)"

definition generate_documentation ::
  "'w ai_documentation_generator \<Rightarrow> string \<Rightarrow> string \<Rightarrow> string \<Rightarrow> 'w net
     \<Rightarrow> (py_error + doc_dict) \<times> 'w net" where
  "generate_documentation self code_content language filename s =
     (case gemini_model self of
        None \<Rightarrow>
          (Inl (ValueError
             ''Gemini API key not configured. Set GEMINI_API_KEY environment variable.''), s)
      | Some model \<Rightarrow>
          (let prompt = build_prompt code_content language filename in
           case perform (GenerateContent prompt) (model prompt) s of
             (Inl e, s1) \<Rightarrow> (Inl (Exception (''Failed to generate documentation: '' @ e)), s1)
           | (Inr full_response, s1) \<Rightarrow> (Inr (parse_response full_response), s1)))"

definition text_to_speech ::
  "'w ai_documentation_generator \<Rightarrow> string \<Rightarrow> 'w net \<Rightarrow> (py_error + bytes) \<times> 'w net" where
  "text_to_speech self text s =
     (case elevenlabs_client self of
        None \<Rightarrow>
          (Inl (ValueError
             ''ElevenLabs API key not configured. Set ELEVENLABS_API_KEY environment variable.''), s)
      | Some client \<Rightarrow>
          (case perform (TextToSpeech text ''EXAVITQu4vr4xnSDxMaL'' ''eleven_monolingual_v1'')
                  (client text ''EXAVITQu4vr4xnSDxMaL'' ''eleven_monolingual_v1'') s of
             (Inl e, s1) \<Rightarrow> (Inl (Exception (''Failed to generate audio: '' @ e)), s1)
           | (Inr audio_generator, s1) \<Rightarrow> (Inr (concat audio_generator), s1)))"

definition process_file ::
  "'w ai_documentation_generator \<Rightarrow> string \<Rightarrow> string \<Rightarrow> string \<Rightarrow> 'w net
     \<Rightarrow> (py_error + string \<times> string \<times> bytes) \<times> 'w net" where
  "process_file self file_content language filename s =
     (case generate_documentation self file_content language filename s of
        (Inl e, s1) \<Rightarrow> (Inl e, s1)
      | (Inr result, s1) \<Rightarrow>
          (case text_to_speech self (summary result) s1 of
             (Inl e, s2) \<Rightarrow> (Inl e, s2)
           | (Inr audio, s2) \<Rightarrow> (Inr (documentation result, summary result, audio), s2)))"

section \<open>A reference provider: repositories held in memory\<close>

text \<open>
  The hosting service is not part of the repository. Its consumed contract (get
  repository by full name, get file contents by path with 404 for absence, create file,
  update file with the prior content hash as the concurrency token, create repository,
  create and list issues) is written out here as an in-memory store, to run the client
  against. \<open>utf8_encode\<close> is the encoding the library applies to the text it is given and
  \<open>sha_of\<close> the content hash of the service; both are parameters. A repository holds
  its files by path, with the list of the paths in use; a path is a directory when a
  stored path lies below it.
\<close>

record repo_state =
  rs_private :: bool
  rs_description :: string
  rs_files :: "string \<rightharpoonup> bytes"
  rs_paths :: "string list"
  rs_issues :: "issue list"

record gh_world =
  gw_login :: string
  gw_repos :: "string \<rightharpoonup> repo_state"

text \<open>
  An error answer of the service with a JSON body \<open>{"message": msg}\<close>; the text of the
  exception is not the message alone.
\<close>

definition gh_error :: "nat \<Rightarrow> string \<Rightarrow> gh_exception" where
  "gh_error st msg =
     \<lparr>gh_status = st, gh_data = Some [''message'' \<mapsto> msg],
      gh_str = ''GithubException: '' @ msg\<rparr>"

definition mem_repository :: "string \<Rightarrow> string \<Rightarrow> repo_state \<Rightarrow> repository" where
  "mem_repository full short rs =
     \<lparr>rp_full_name = full, rp_name = short, rp_html_url = ''https://github.com/'' @ full,
      rp_private = rs_private rs, rp_description = Some (rs_description rs)\<rparr>"

definition mem_file_url :: "string \<Rightarrow> string \<Rightarrow> string" where
  "mem_file_url full path = ''https://github.com/'' @ full @ ''/blob/main/'' @ path"

definition mem_create_repo ::
  "(string \<Rightarrow> bytes) \<Rightarrow> string \<Rightarrow> bool \<Rightarrow> string \<Rightarrow> bool \<Rightarrow> gh_world
     \<Rightarrow> (gh_exception + repository) \<times> gh_world" where
  "mem_create_repo utf8_encode name private description auto_init w =
     (let full = gw_login w @ ''/'' @ name in
      case gw_repos w full of
        Some _ \<Rightarrow> (Inl (gh_error 422 ''Repository creation failed.''), w)
      | None \<Rightarrow>
          (let rs = \<lparr>rs_private = private, rs_description = description,
                     rs_files = (if auto_init
                                 then [''README.md'' \<mapsto> utf8_encode (''# '' @ name)]
                                 else Map.empty),
                     rs_paths = (if auto_init then [''README.md''] else []),
                     rs_issues = []\<rparr>
           in (Inr (mem_repository full name rs), w\<lparr>gw_repos := (gw_repos w)(full \<mapsto> rs)\<rparr>)))"

definition mem_get_repo :: "string \<Rightarrow> gh_world \<Rightarrow> (gh_exception + repository) \<times> gh_world" where
  "mem_get_repo full w =
     (case gw_repos w full of
        None \<Rightarrow> (Inl (gh_error 404 ''Not Found''), w)
      | Some rs \<Rightarrow>
          (Inr (mem_repository full (drop 1 (dropWhile (\<lambda>c. c \<noteq> CHR ''/'') full)) rs), w))"

definition mem_create_issue ::
  "repository \<Rightarrow> string \<Rightarrow> string \<Rightarrow> gh_world \<Rightarrow> (gh_exception + issue) \<times> gh_world" where
  "mem_create_issue repo title body w =
     (case gw_repos w (rp_full_name repo) of
        None \<Rightarrow> (Inl (gh_error 404 ''Not Found''), w)
      | Some rs \<Rightarrow>
          (let i = \<lparr>issue_number = Suc (length (rs_issues rs)),
                    issue_html_url = ''https://github.com/'' @ rp_full_name repo @ ''/issues'',
                    issue_title = title, issue_state = ''open''\<rparr>
           in (Inr i,
               w\<lparr>gw_repos := (gw_repos w)(rp_full_name repo \<mapsto>
                    rs\<lparr>rs_issues := rs_issues rs @ [i]\<rparr>)\<rparr>)))"

definition mem_get_issues ::
  "repository \<Rightarrow> string \<Rightarrow> gh_world \<Rightarrow> (gh_exception + issue list) \<times> gh_world" where
  "mem_get_issues repo state w =
     (case gw_repos w (rp_full_name repo) of
        None \<Rightarrow> (Inl (gh_error 404 ''Not Found''), w)
      | Some rs \<Rightarrow>
          (Inr (filter (\<lambda>i. state = ''all'' \<or> issue_state i = state) (rs_issues rs)), w))"

definition mem_content_file :: "(bytes \<Rightarrow> string) \<Rightarrow> string \<Rightarrow> string \<Rightarrow> bytes \<Rightarrow> content_file" where
  "mem_content_file sha_of full path b =
     \<lparr>cf_path = path, cf_sha = sha_of b, cf_decoded_content = b,
      cf_html_url = mem_file_url full path, cf_size = length b\<rparr>"

definition mem_entries :: "(bytes \<Rightarrow> string) \<Rightarrow> string \<Rightarrow> repo_state \<Rightarrow> string \<Rightarrow> content_file list" where
  "mem_entries sha_of full rs path =
     concat (map (\<lambda>q. case rs_files rs q of
                         None \<Rightarrow> []
                       | Some b \<Rightarrow> [mem_content_file sha_of full q b])
               (filter (\<lambda>q. prefix (path @ ''/'') q) (rs_paths rs)))"

definition mem_get_contents ::
  "(bytes \<Rightarrow> string) \<Rightarrow> repository \<Rightarrow> string \<Rightarrow> gh_world
     \<Rightarrow> (gh_exception + contents) \<times> gh_world" where
  "mem_get_contents sha_of repo path w =
     (case gw_repos w (rp_full_name repo) of
        None \<Rightarrow> (Inl (gh_error 404 ''Not Found''), w)
      | Some rs \<Rightarrow>
          (case rs_files rs path of
             Some b \<Rightarrow> (Inr (ContentFile (mem_content_file sha_of (rp_full_name repo) path b)), w)
           | None \<Rightarrow>
               (case mem_entries sha_of (rp_full_name repo) rs path of
                  [] \<Rightarrow> (Inl (gh_error 404 ''Not Found''), w)
                | entries \<Rightarrow> (Inr (ContentList entries), w))))"

definition mem_store ::
  "(string \<Rightarrow> bytes) \<Rightarrow> (bytes \<Rightarrow> string) \<Rightarrow> repository \<Rightarrow> repo_state \<Rightarrow> string \<Rightarrow> string
     \<Rightarrow> gh_world \<Rightarrow> (gh_exception + write_result) \<times> gh_world" where
  "mem_store utf8_encode sha_of repo rs path content w =
     (Inr \<lparr>wr_commit_sha = sha_of (utf8_encode (path @ content)),
           wr_content_html_url = mem_file_url (rp_full_name repo) path\<rparr>,
      w\<lparr>gw_repos := (gw_repos w)(rp_full_name repo \<mapsto>
           rs\<lparr>rs_files := (rs_files rs)(path \<mapsto> utf8_encode content),
              rs_paths := (if path \<in> set (rs_paths rs) then rs_paths rs
                           else rs_paths rs @ [path])\<rparr>)\<rparr>)"

definition mem_update_file ::
  "(string \<Rightarrow> bytes) \<Rightarrow> (bytes \<Rightarrow> string) \<Rightarrow> repository \<Rightarrow> string \<Rightarrow> string \<Rightarrow> string
     \<Rightarrow> string \<Rightarrow> gh_world \<Rightarrow> (gh_exception + write_result) \<times> gh_world" where
  "mem_update_file utf8_encode sha_of repo path message content sha w =
     (case gw_repos w (rp_full_name repo) of
        None \<Rightarrow> (Inl (gh_error 404 ''Not Found''), w)
      | Some rs \<Rightarrow>
          (case rs_files rs path of
             None \<Rightarrow> (Inl (gh_error 404 ''Not Found''), w)
           | Some b \<Rightarrow>
               if sha_of b \<noteq> sha
               then (Inl (gh_error 409 (path @ '' does not match '' @ sha)), w)
               else mem_store utf8_encode sha_of repo rs path content w))"

definition mem_create_file ::
  "(string \<Rightarrow> bytes) \<Rightarrow> (bytes \<Rightarrow> string) \<Rightarrow> repository \<Rightarrow> string \<Rightarrow> string \<Rightarrow> string
     \<Rightarrow> gh_world \<Rightarrow> (gh_exception + write_result) \<times> gh_world" where
  "mem_create_file utf8_encode sha_of repo path message content w =
     (case gw_repos w (rp_full_name repo) of
        None \<Rightarrow> (Inl (gh_error 404 ''Not Found''), w)
      | Some rs \<Rightarrow>
          (case rs_files rs path of
             Some b \<Rightarrow> (Inl (gh_error 422 ''Invalid request. sha was not supplied.''), w)
           | None \<Rightarrow>
               if mem_entries sha_of (rp_full_name repo) rs path \<noteq> []
               then (Inl (gh_error 422 ''Invalid request. path is a directory.''), w)
               else mem_store utf8_encode sha_of repo rs path content w))"

definition mem_github :: "(string \<Rightarrow> bytes) \<Rightarrow> (bytes \<Rightarrow> string) \<Rightarrow> gh_world github_api" where
  "mem_github utf8_encode sha_of =
     \<lparr>user_create_repo = mem_create_repo utf8_encode,
      github_get_repo = mem_get_repo,
      repo_create_issue = mem_create_issue,
      repo_get_issues = mem_get_issues,
      repo_get_contents = mem_get_contents sha_of,
      repo_update_file = mem_update_file utf8_encode sha_of,
      repo_create_file = mem_create_file utf8_encode sha_of\<rparr>"

text \<open>
  A client on the reference provider, and a world with one repository that holds a file
  at its root and a file in the directory \<open>src\<close>.
\<close>

definition mem_client :: "(string \<Rightarrow> bytes) \<Rightarrow> (bytes \<Rightarrow> string) \<Rightarrow> gh_world github_client" where
  "mem_client utf8_encode sha_of =
     \<lparr>client_token = ''ghp_token'', github = mem_github utf8_encode sha_of\<rparr>"

definition demo_world :: gh_world where
  "demo_world =
     \<lparr>gw_login = ''octo'',
      gw_repos = [''octo/demo'' \<mapsto>
        \<lparr>rs_private = False, rs_description = ''demo'',
         rs_files = [''README.md'' \<mapsto> ''# demo'', ''src/app.py'' \<mapsto> ''x = 1''],
         rs_paths = [''README.md'', ''src/app.py''], rs_issues = []\<rparr>]\<rparr>"

definition demo_net :: "gh_world net" where
  "demo_net = \<lparr>calls = [], world = demo_world\<rparr>"

section \<open>The specification's vocabulary\<close>

text \<open>
  A malformed repository identifier, in the words of the specification: the empty
  string, no \<open>/\<close>, more than one \<open>/\<close>, or an empty owner or name segment.
\<close>

definition malformed_repo_id :: "string \<Rightarrow> bool" where
  "malformed_repo_id s \<longleftrightarrow>
     s = [] \<or> CHR ''/'' \<notin> set s \<or> 1 < count_list s CHR ''/''
     \<or> takeWhile (\<lambda>c. c \<noteq> CHR ''/'') s = []
     \<or> drop 1 (dropWhile (\<lambda>c. c \<noteq> CHR ''/'') s) = []"

text \<open>
  The number of occurrences of a marker in a text: the positions at which the marker
  starts, overlapping ones included.
\<close>

fun count_occurrences :: "string \<Rightarrow> string \<Rightarrow> nat" where
  "count_occurrences marker [] = 0"
| "count_occurrences marker (x # xs) =
     (if prefix marker (x # xs) then 1 else 0) + count_occurrences marker xs"

text \<open>
  The non-empty lines of a text, each trimmed, and the sentence fragments of a text: the
  non-blank pieces between runs of \<open>.\<close>, \<open>!\<close> and \<open>?\<close>, each trimmed.
\<close>

definition nonempty_lines :: "string \<Rightarrow> string list" where
  "nonempty_lines t = filter (\<lambda>l. l \<noteq> []) (map py_strip (py_split t [CHR 0x0A]))"

definition sentence_fragments :: "string \<Rightarrow> string list" where
  "sentence_fragments t = filter (\<lambda>f. f \<noteq> []) (map py_strip (re_split_sentences t))"

text \<open>Provider handles that answer every call with a fixed reply.\<close>

definition scripted_sdk :: "string + string \<Rightarrow> string + bytes list \<Rightarrow> 'w ai_sdk" where
  "scripted_sdk text_reply speech_reply =
     \<lparr>GenerativeModel = (\<lambda>key model_name prompt w. (text_reply, w)),
      ElevenLabs = (\<lambda>key text voice_id model_id w. (speech_reply, w))\<rparr>"

text \<open>The reference provider with the contents endpoint answering a fixed error.\<close>

definition outage_client :: "gh_exception \<Rightarrow> gh_world github_client" where
  "outage_client e =
     \<lparr>client_token = ''ghp_token'',
      github = (mem_github id id)\<lparr>repo_get_contents := (\<lambda>repo path w. (Inl e, w))\<rparr>\<rparr>"

text \<open>
  The reference provider with every repository lookup answering a fixed error.
\<close>

definition unreachable_client :: "gh_exception \<Rightarrow> gh_world github_client" where
  "unreachable_client e =
     \<lparr>client_token = ''ghp_token'',
      github = (mem_github id id)\<lparr>github_get_repo := (\<lambda>full w. (Inl e, w))\<rparr>\<rparr>"

text \<open>
  A writer outside the process: the reference provider on which another client deletes
  the path right after the contents lookup has answered, before the next call arrives.
\<close>

definition external_delete :: "string \<Rightarrow> string \<Rightarrow> gh_world \<Rightarrow> gh_world" where
  "external_delete full path w =
     (case gw_repos w full of
        None \<Rightarrow> w
      | Some rs \<Rightarrow>
          w\<lparr>gw_repos := (gw_repos w)(full \<mapsto>
               rs\<lparr>rs_files := (rs_files rs)(path := None),
                  rs_paths := removeAll path (rs_paths rs)\<rparr>)\<rparr>)"

definition racing_client :: "gh_world github_client" where
  "racing_client =
     \<lparr>client_token = ''ghp_token'',
      github = (mem_github id id)\<lparr>repo_get_contents :=
        (\<lambda>repo path w. case mem_get_contents id repo path w of
                          (r, w') \<Rightarrow> (r, external_delete (rp_full_name repo) path w'))\<rparr>\<rparr>"

text \<open>The speech-provider calls among the recorded calls.\<close>

fun is_speech_call :: "call \<Rightarrow> bool" where
  "is_speech_call (TextToSpeech t v m) = True"
| "is_speech_call c = False"

section \<open>Properties: repository identifiers\<close>

lemma py_split_from_char_length:
  "length (py_split_from [c] cur s) = Suc (count_list s c)"
  by (induction s arbitrary: cur) auto

lemma py_split_from_char_none:
  "c \<notin> set s \<Longrightarrow> py_split_from [c] cur s = [cur @ s]"
  by (induction s arbitrary: cur) auto

lemma py_split_from_char_first:
  "c \<in> set s \<Longrightarrow>
   py_split_from [c] cur s =
     (cur @ takeWhile (\<lambda>x. x \<noteq> c) s) # py_split_from [c] [] (drop 1 (dropWhile (\<lambda>x. x \<noteq> c) s))"
  by (induction s arbitrary: cur) auto

lemma count_list_zero_iff: "count_list s c = 0 \<longleftrightarrow> c \<notin> set s"
  by (induction s) auto

lemma count_list_dropWhile_tl:
  "c \<in> set s \<Longrightarrow> count_list s c = Suc (count_list (drop 1 (dropWhile (\<lambda>x. x \<noteq> c) s)) c)"
  by (induction s) auto

text \<open>The validation of the source accepts exactly the identifiers that are not malformed.\<close>

lemma validate_repo_name_iff:
  "validate_repo_name s = Inr () \<longleftrightarrow> \<not> malformed_repo_id s"
proof (cases "CHR ''/'' \<in> set s")
  case False
  then show ?thesis by (simp add: validate_repo_name_def malformed_repo_id_def)
next
  case True
  let ?r = "drop 1 (dropWhile (\<lambda>x. x \<noteq> CHR ''/'') s)"
  have ne: "s \<noteq> []" using True by auto
  have len: "length (py_split s ''/'') = Suc (count_list s CHR ''/'')"
    by (simp add: py_split_def py_split_from_char_length)
  have cnt: "count_list s CHR ''/'' = Suc (count_list ?r CHR ''/'')"
    using True by (rule count_list_dropWhile_tl)
  show ?thesis
  proof (cases "count_list ?r CHR ''/'' = 0")
    case False
    then show ?thesis using True ne len cnt
      by (simp add: validate_repo_name_def malformed_repo_id_def Let_def)
  next
    case z: True
    then have "CHR ''/'' \<notin> set ?r" by (simp add: count_list_zero_iff)
    then have "py_split s ''/'' = [takeWhile (\<lambda>x. x \<noteq> CHR ''/'') s, ?r]"
      using True by (simp add: py_split_def py_split_from_char_first py_split_from_char_none)
    then show ?thesis using True ne cnt z
      by (auto simp add: validate_repo_name_def malformed_repo_id_def Let_def)
  qed
qed

lemma validate_repo_name_malformed:
  "malformed_repo_id s \<Longrightarrow> validate_repo_name s = Inl (ValueError invalid_repo_msg)"
  using validate_repo_name_iff[of s]
  by (auto simp: validate_repo_name_def Let_def split: if_splits)

lemma validate_repo_name_wellformed:
  "\<not> malformed_repo_id s \<Longrightarrow> validate_repo_name s = Inr ()"
  by (simp add: validate_repo_name_iff)

lemma two_segment_not_malformed:
  assumes "owner \<noteq> []" "name \<noteq> []" "CHR ''/'' \<notin> set owner" "CHR ''/'' \<notin> set name"
  shows "\<not> malformed_repo_id (owner @ ''/'' @ name)"
proof -
  have tw: "takeWhile (\<lambda>c. c \<noteq> CHR ''/'') (owner @ ''/'' @ name) = owner"
    using assms(3) by (induction owner) auto
  have dw: "dropWhile (\<lambda>c. c \<noteq> CHR ''/'') (owner @ ''/'' @ name) = ''/'' @ name"
    using assms(3) by (induction owner) auto
  have c0: "count_list owner CHR ''/'' = 0" "count_list name CHR ''/'' = 0"
    using assms(3,4) by (simp_all add: count_list_zero_iff)
  show ?thesis using assms tw dw c0 by (simp add: malformed_repo_id_def)
qed

text \<open>Every identifier that is not malformed has the two-segment form.\<close>

lemma not_malformed_two_segment:
  assumes "\<not> malformed_repo_id s"
  shows "\<exists>owner name. s = owner @ ''/'' @ name \<and> owner \<noteq> [] \<and> name \<noteq> []
           \<and> CHR ''/'' \<notin> set owner \<and> CHR ''/'' \<notin> set name"
proof -
  let ?o = "takeWhile (\<lambda>c. c \<noteq> CHR ''/'') s"
  let ?d = "dropWhile (\<lambda>c. c \<noteq> CHR ''/'') s"
  let ?n = "drop 1 ?d"
  from assms have m: "CHR ''/'' \<in> set s" "?o \<noteq> []" "?n \<noteq> []" "count_list s CHR ''/'' \<le> 1"
    by (auto simp: malformed_repo_id_def)
  have "count_list s CHR ''/'' = Suc (count_list ?n CHR ''/'')"
    using m(1) by (rule count_list_dropWhile_tl)
  with m(4) have "CHR ''/'' \<notin> set ?n" by (simp add: count_list_zero_iff)
  moreover have "?d \<noteq> []" using m(1) by (simp)
  then have "hd ?d = CHR ''/''" using hd_dropWhile[of "\<lambda>c. c \<noteq> CHR ''/''" s] by simp
  with \<open>?d \<noteq> []\<close> have "?d = ''/'' @ ?n" by (cases ?d) auto
  then have "s = ?o @ ''/'' @ ?n" using takeWhile_dropWhile_id[of "\<lambda>c. c \<noteq> CHR ''/''" s] by metis
  moreover have "CHR ''/'' \<notin> set ?o" by (auto dest: set_takeWhileD)
  ultimately show ?thesis using m(2,3) by blast
qed

text \<open>
  Claim C2. For a malformed repository identifier, \<open>create_issue\<close>, \<open>list_issues\<close>,
  \<open>commit_file\<close> and \<open>read_file\<close> raise the \<open>ValueError\<close> of the validation and leave
  the network state as it was: no call is recorded and the remote world is unchanged.
  For an identifier \<open>owner/name\<close> with both segments non-empty and free of \<open>/\<close>, the
  validation passes.
\<close>

theorem malformed_repo_id_rejected_before_any_call:
  "(malformed_repo_id rid \<longrightarrow>
      create_issue self rid title body s = (Inl (ValueError invalid_repo_msg), s)
      \<and> list_issues self rid state s = (Inl (ValueError invalid_repo_msg), s)
      \<and> commit_file self rid path content message s = (Inl (ValueError invalid_repo_msg), s)
      \<and> read_file utf8_decode self rid path s = (Inl (ValueError invalid_repo_msg), s))
   \<and> (owner \<noteq> [] \<and> name \<noteq> [] \<and> CHR ''/'' \<notin> set owner \<and> CHR ''/'' \<notin> set name \<longrightarrow>
        validate_repo_name (owner @ ''/'' @ name) = Inr ())"
proof (intro conjI impI)
  assume m: "malformed_repo_id rid"
  note v = validate_repo_name_malformed[OF m]
  show "create_issue self rid title body s = (Inl (ValueError invalid_repo_msg), s)"
    by (simp add: create_issue_def v)
  show "list_issues self rid state s = (Inl (ValueError invalid_repo_msg), s)"
    by (simp add: list_issues_def v)
  show "commit_file self rid path content message s = (Inl (ValueError invalid_repo_msg), s)"
    by (simp add: commit_file_def v)
  show "read_file utf8_decode self rid path s = (Inl (ValueError invalid_repo_msg), s)"
    by (simp add: read_file_def v)
next
  assume "owner \<noteq> [] \<and> name \<noteq> [] \<and> CHR ''/'' \<notin> set owner \<and> CHR ''/'' \<notin> set name"
  then have "\<not> malformed_repo_id (owner @ ''/'' @ name)"
    by (simp only: two_segment_not_malformed not_False_eq_True)
  then show "validate_repo_name (owner @ ''/'' @ name) = Inr ()"
    by (rule validate_repo_name_wellformed)
qed

theorem malformed_repo_id_rejected_witness:
  "malformed_repo_id ''octo/demo/extra''
   \<and> create_issue (mem_client id id) ''octo/demo/extra'' ''t'' ''b'' demo_net
       = (Inl (ValueError invalid_repo_msg), demo_net)
   \<and> list_issues (mem_client id id) ''octo/demo/extra'' ''open'' demo_net
       = (Inl (ValueError invalid_repo_msg), demo_net)
   \<and> commit_file (mem_client id id) ''octo/demo/extra'' ''a.txt'' ''x'' ''m'' demo_net
       = (Inl (ValueError invalid_repo_msg), demo_net)
   \<and> read_file Some (mem_client id id) ''octo/demo/extra'' ''a.txt'' demo_net
       = (Inl (ValueError invalid_repo_msg), demo_net)
   \<and> calls demo_net = []
   \<and> validate_repo_name (''octo'' @ ''/'' @ ''demo'') = Inr ()"
  using malformed_repo_id_rejected_before_any_call
          [of "''octo/demo/extra''" "mem_client id id" "''t''" "''b''" demo_net "''open''"
              "''a.txt''" "''x''" "''m''" Some "''octo''" "''demo''"]
  by (simp add: malformed_repo_id_def demo_net_def)

section \<open>Properties: \<open>commit_file\<close>\<close>

text \<open>The definitions of the reference provider, unfolded when a concrete run is evaluated.\<close>

lemmas mem_defs =
  mem_client_def mem_github_def mem_get_repo_def mem_get_contents_def mem_update_file_def
  mem_create_file_def mem_store_def mem_repository_def mem_file_url_def mem_create_repo_def
  mem_create_issue_def mem_get_issues_def mem_content_file_def mem_entries_def gh_error_def
  demo_net_def demo_world_def outage_client_def unreachable_client_def racing_client_def
  external_delete_def

text \<open>
  The branches of \<open>commit_file\<close> after a successful repository lookup, each with the
  calls it makes. A 404 from the contents lookup is followed by one create.
\<close>

lemma commit_file_not_found_creates:
  assumes wf: "\<not> malformed_repo_id repo_full_name"
    and repo: "github_get_repo (github self) repo_full_name (world s) = (Inr repo, w1)"
    and probe: "repo_get_contents (github self) repo path w1 = (Inl e, w2)"
    and st: "gh_status e = 404"
    and cre: "repo_create_file (github self) repo path message content w2 = (Inr res, w3)"
  shows "commit_file self repo_full_name path content message s =
           (Inr \<lparr>cd_commit_sha = wr_commit_sha res, cd_url = wr_content_html_url res,
                 cd_action = ''created'', cd_path = path\<rparr>,
            \<lparr>calls = calls s @ [GetRepo repo_full_name, GetContents (rp_full_name repo) path,
                       CreateFile (rp_full_name repo) path message content],
             world = w3\<rparr>)"
  using repo probe st cre
  by (simp add: commit_file_def commit_file_write_def perform_def
      validate_repo_name_wellformed[OF wf])

text \<open>A file found by the contents lookup is followed by an update that carries its hash.\<close>

lemma commit_file_found_updates:
  assumes wf: "\<not> malformed_repo_id repo_full_name"
    and repo: "github_get_repo (github self) repo_full_name (world s) = (Inr repo, w1)"
    and probe: "repo_get_contents (github self) repo path w1 = (Inr (ContentFile f), w2)"
    and upd: "repo_update_file (github self) repo path message content (cf_sha f) w2
                = (Inr res, w3)"
  shows "commit_file self repo_full_name path content message s =
           (Inr \<lparr>cd_commit_sha = wr_commit_sha res, cd_url = wr_content_html_url res,
                 cd_action = ''updated'', cd_path = path\<rparr>,
            \<lparr>calls = calls s @ [GetRepo repo_full_name, GetContents (rp_full_name repo) path,
                       UpdateFile (rp_full_name repo) path message content (cf_sha f)],
             world = w3\<rparr>)"
  using repo probe upd
  by (simp add: commit_file_def commit_file_write_def perform_def
      validate_repo_name_wellformed[OF wf])

text \<open>
  The update is inside the inner \<open>try\<close> as well: a 404 raised by \<open>update_file\<close>
  itself, after the contents lookup found the file, also reaches the handler and is
  followed by a create.
\<close>

lemma commit_file_update_not_found_creates:
  assumes wf: "\<not> malformed_repo_id repo_full_name"
    and repo: "github_get_repo (github self) repo_full_name (world s) = (Inr repo, w1)"
    and probe: "repo_get_contents (github self) repo path w1 = (Inr (ContentFile f), w2)"
    and upd: "repo_update_file (github self) repo path message content (cf_sha f) w2
                = (Inl e, w3)"
    and st: "gh_status e = 404"
    and cre: "repo_create_file (github self) repo path message content w3 = (Inr res, w4)"
  shows "commit_file self repo_full_name path content message s =
           (Inr \<lparr>cd_commit_sha = wr_commit_sha res, cd_url = wr_content_html_url res,
                 cd_action = ''created'', cd_path = path\<rparr>,
            \<lparr>calls = calls s @ [GetRepo repo_full_name, GetContents (rp_full_name repo) path,
                       UpdateFile (rp_full_name repo) path message content (cf_sha f),
                       CreateFile (rp_full_name repo) path message content],
             world = w4\<rparr>)"
  using repo probe upd st cre
  by (simp add: commit_file_def commit_file_write_def perform_def
      validate_repo_name_wellformed[OF wf])

text \<open>
  A path that exists as a directory: the contents lookup answers a listing, the read of
  its \<open>sha\<close> raises, and no write is attempted.
\<close>

lemma commit_file_on_directory:
  assumes wf: "\<not> malformed_repo_id repo_full_name"
    and repo: "github_get_repo (github self) repo_full_name (world s) = (Inr repo, w1)"
    and probe: "repo_get_contents (github self) repo path w1 = (Inr (ContentList entries), w2)"
  shows "commit_file self repo_full_name path content message s =
           (Inl (AttributeError ''sha''),
            \<lparr>calls = calls s @ [GetRepo repo_full_name, GetContents (rp_full_name repo) path],
             world = w2\<rparr>)"
  using repo probe
  by (simp add: commit_file_def commit_file_write_def perform_def
      validate_repo_name_wellformed[OF wf])

lemma commit_file_on_directory_demo:
  "commit_file (mem_client id id) ''octo/demo'' ''src'' ''hello'' ''add src'' demo_net
     = (Inl (AttributeError ''sha''),
        \<lparr>calls = [GetRepo ''octo/demo'', GetContents ''octo/demo'' ''src''],
         world = demo_world\<rparr>)"
proof -
  have v: "validate_repo_name ''octo/demo'' = Inr ()"
    by (rule validate_repo_name_wellformed) (simp add: malformed_repo_id_def)
  show ?thesis
    by (simp add: commit_file_def commit_file_write_def perform_def v mem_defs)
qed

text \<open>
  Claim C1, at a failing input. The file \<open>README.md\<close> exists when \<open>commit_file\<close> looks
  it up, and another writer deletes it before the update arrives. The update, which
  carries the hash the lookup returned, is answered 404; the handler meant for the
  lookup takes it for an absent file, and \<open>commit_file\<close> creates the file and returns the
  action \<open>created\<close> for a path that the existence check found, instead of \<open>updated\<close> or
  the rejected write.
\<close>

theorem commit_file_reports_created_for_found_path:
  "fst (commit_file racing_client ''octo/demo'' ''README.md'' ''hello'' ''edit readme''
          demo_net)
     = Inr \<lparr>cd_commit_sha = ''README.mdhello'',
            cd_url = ''https://github.com/octo/demo/blob/main/README.md'',
            cd_action = ''created'', cd_path = ''README.md''\<rparr>
   \<and> calls (snd (commit_file racing_client ''octo/demo'' ''README.md'' ''hello''
                   ''edit readme'' demo_net))
     = [GetRepo ''octo/demo'', GetContents ''octo/demo'' ''README.md'',
        UpdateFile ''octo/demo'' ''README.md'' ''edit readme'' ''hello'' ''# demo'',
        CreateFile ''octo/demo'' ''README.md'' ''edit readme'' ''hello'']"
proof -
  have v: "validate_repo_name ''octo/demo'' = Inr ()"
    by (rule validate_repo_name_wellformed) (simp add: malformed_repo_id_def)
  show ?thesis
    by (simp add: commit_file_def commit_file_write_def perform_def v mem_defs)
qed

text \<open>
  Claim C7, as amended. A failure of the contents lookup whose status is not 404 and
  whose body is a dictionary is re-raised by the inner handler, so that no write is
  attempted, and reaches the caller through the outer handler of \<open>commit_file\<close> as a
  plain \<open>Exception\<close> whose message is \<open>Failed to commit file: \<close> followed by the entry
  \<open>message\<close> of the body, or by \<open>str(e)\<close> when the body has no such entry.
\<close>

theorem commit_file_probe_failure_wrapped:
  assumes wf: "\<not> malformed_repo_id repo_full_name"
    and repo: "github_get_repo (github self) repo_full_name (world s) = (Inr repo, w1)"
    and probe: "repo_get_contents (github self) repo path w1 = (Inl e, w2)"
    and st: "gh_status e \<noteq> 404"
    and body: "gh_data e = Some d"
  shows "commit_file self repo_full_name path content message s =
           (Inl (Exception (''Failed to commit file: ''
                   @ (case d ''message'' of Some m \<Rightarrow> m | None \<Rightarrow> gh_str e))),
            \<lparr>calls = calls s @ [GetRepo repo_full_name, GetContents (rp_full_name repo) path],
             world = w2\<rparr>)"
  using repo probe st body
  by (simp add: commit_file_def commit_file_write_def perform_def raise_wrapped_def
      validate_repo_name_wellformed[OF wf])

text \<open>
  Claim C7 as stated fails: with the contents lookup answering status 500, the caller
  does not see that \<open>GithubException\<close> but the \<open>Exception\<close> built by the outer handler.
\<close>

theorem commit_file_probe_failure_not_unchanged:
  "fst (commit_file (outage_client (gh_error 500 ''Server Error'')) ''octo/demo'' ''README.md''
          ''hello'' ''edit readme'' demo_net)
     = Inl (Exception ''Failed to commit file: Server Error'')
   \<and> fst (commit_file (outage_client (gh_error 500 ''Server Error'')) ''octo/demo'' ''README.md''
          ''hello'' ''edit readme'' demo_net)
     \<noteq> Inl (GithubException (gh_error 500 ''Server Error''))"
proof -
  have v: "validate_repo_name ''octo/demo'' = Inr ()"
    by (rule validate_repo_name_wellformed) (simp add: malformed_repo_id_def)
  show ?thesis
    by (simp add: commit_file_def commit_file_write_def perform_def v mem_defs
        raise_wrapped_def)
qed

theorem commit_file_probe_failure_wrapped_witness:
  "commit_file (outage_client (gh_error 500 ''Server Error'')) ''octo/demo'' ''README.md''
          ''hello'' ''edit readme'' demo_net
     = (Inl (Exception ''Failed to commit file: Server Error''),
        \<lparr>calls = [GetRepo ''octo/demo'', GetContents ''octo/demo'' ''README.md''],
         world = demo_world\<rparr>)
   \<and> gh_str (gh_error 500 ''Server Error'') \<noteq> ''Server Error''
   \<and> commit_file
        (outage_client \<lparr>gh_status = 502, gh_data = Some Map.empty, gh_str = ''502 Bad Gateway''\<rparr>)
        ''octo/demo'' ''README.md'' ''hello'' ''edit readme'' demo_net
     = (Inl (Exception ''Failed to commit file: 502 Bad Gateway''),
        \<lparr>calls = [GetRepo ''octo/demo'', GetContents ''octo/demo'' ''README.md''],
         world = demo_world\<rparr>)"
proof -
  let ?e = "gh_error 500 ''Server Error''"
  let ?e2 = "\<lparr>gh_status = 502, gh_data = Some Map.empty, gh_str = ''502 Bad Gateway''\<rparr>"
  let ?repo = "\<lparr>rp_full_name = ''octo/demo'', rp_name = ''demo'',
                rp_html_url = ''https://github.com/octo/demo'', rp_private = False,
                rp_description = Some ''demo''\<rparr>"
  have wf: "\<not> malformed_repo_id ''octo/demo''"
    by (simp add: malformed_repo_id_def)
  have repo: "github_get_repo (github (outage_client e)) ''octo/demo'' (world demo_net)
                = (Inr ?repo, demo_world)" for e
    by (simp add: mem_defs)
  have probe: "repo_get_contents (github (outage_client e)) ?repo ''README.md'' demo_world
                = (Inl e, demo_world)" for e
    by (simp add: mem_defs)
  have st: "gh_status ?e \<noteq> 404" "gh_status ?e2 \<noteq> 404" by (simp_all add: gh_error_def)
  have body: "gh_data ?e = Some [''message'' \<mapsto> ''Server Error'']"
             "gh_data ?e2 = Some Map.empty"
    by (simp_all add: gh_error_def)
  have n: "rp_full_name ?repo = ''octo/demo''" "calls demo_net = []"
          "gh_str ?e \<noteq> ''Server Error''" "gh_str ?e2 = ''502 Bad Gateway''"
    by (simp_all add: mem_defs)
  from commit_file_probe_failure_wrapped[OF wf repo probe st(1) body(1),
         where content = "''hello''" and message = "''edit readme''"]
       commit_file_probe_failure_wrapped[OF wf repo probe st(2) body(2),
         where content = "''hello''" and message = "''edit readme''"] n
  show ?thesis by simp
qed

text \<open>
  With an empty error body the outer handler itself fails: the caller sees the
  \<open>AttributeError\<close> of \<open>e.data.get\<close>.
\<close>

lemma commit_file_probe_failure_empty_body:
  assumes wf: "\<not> malformed_repo_id repo_full_name"
    and repo: "github_get_repo (github self) repo_full_name (world s) = (Inr repo, w1)"
    and probe: "repo_get_contents (github self) repo path w1 = (Inl e, w2)"
    and st: "gh_status e \<noteq> 404"
    and body: "gh_data e = None"
  shows "fst (commit_file self repo_full_name path content message s)
           = Inl (AttributeError ''get'')"
  using repo probe st body
  by (simp add: commit_file_def commit_file_write_def perform_def raise_wrapped_def
      validate_repo_name_wellformed[OF wf])

section \<open>Properties: \<open>read_file\<close>\<close>

text \<open>
  Claim C10. For a well-formed identifier, a provider failure of \<open>read_file\<close> with
  status 404, raised by the repository lookup or by the contents lookup alike and whatever
  its body, reaches the caller as the \<open>Exception\<close> with message \<open>File not found: \<close>
  followed by the path. A provider failure with any other status and a dictionary body
  reaches the caller as the \<open>Exception\<close> with message \<open>Failed to read file: \<close> followed
  by the entry \<open>message\<close> of the body, or by \<open>str(e)\<close> when the body has no such entry.
  A provider failure that ends in a \<open>Failed to read file: \<close> message never had
  status 404.
\<close>

theorem read_file_not_found_message:
  assumes wf: "\<not> malformed_repo_id repo_full_name"
  shows "(github_get_repo (github self) repo_full_name (world s) = (Inl e, w1)
            \<and> gh_status e = 404 \<longrightarrow>
            read_file utf8_decode self repo_full_name path s =
              (Inl (Exception (''File not found: '' @ path)),
               \<lparr>calls = calls s @ [GetRepo repo_full_name], world = w1\<rparr>))
       \<and> (github_get_repo (github self) repo_full_name (world s) = (Inr repo, w1)
            \<and> repo_get_contents (github self) repo path w1 = (Inl e, w2)
            \<and> gh_status e = 404 \<longrightarrow>
            read_file utf8_decode self repo_full_name path s =
              (Inl (Exception (''File not found: '' @ path)),
               \<lparr>calls = calls s @ [GetRepo repo_full_name, GetContents (rp_full_name repo) path],
                world = w2\<rparr>))
       \<and> (github_get_repo (github self) repo_full_name (world s) = (Inl e, w1)
            \<and> gh_status e \<noteq> 404 \<and> gh_data e = Some d \<longrightarrow>
            read_file utf8_decode self repo_full_name path s =
              (Inl (Exception (''Failed to read file: ''
                      @ (case d ''message'' of Some m \<Rightarrow> m | None \<Rightarrow> gh_str e))),
               \<lparr>calls = calls s @ [GetRepo repo_full_name], world = w1\<rparr>))
       \<and> (github_get_repo (github self) repo_full_name (world s) = (Inr repo, w1)
            \<and> repo_get_contents (github self) repo path w1 = (Inl e, w2)
            \<and> gh_status e \<noteq> 404 \<and> gh_data e = Some d \<longrightarrow>
            read_file utf8_decode self repo_full_name path s =
              (Inl (Exception (''Failed to read file: ''
                      @ (case d ''message'' of Some m \<Rightarrow> m | None \<Rightarrow> gh_str e))),
               \<lparr>calls = calls s @ [GetRepo repo_full_name, GetContents (rp_full_name repo) path],
                world = w2\<rparr>))
       \<and> ((github_get_repo (github self) repo_full_name (world s) = (Inl e, w1)
             \<or> github_get_repo (github self) repo_full_name (world s) = (Inr repo, w1)
                \<and> repo_get_contents (github self) repo path w1 = (Inl e, w2))
            \<and> fst (read_file utf8_decode self repo_full_name path s)
                = Inl (Exception (''Failed to read file: '' @ msg)) \<longrightarrow>
            gh_status e \<noteq> 404)"
proof -
  note v = validate_repo_name_wellformed[OF wf]
  have 1: "github_get_repo (github self) repo_full_name (world s) = (Inl e, w1)
            \<and> gh_status e = 404 \<longrightarrow>
            read_file utf8_decode self repo_full_name path s =
              (Inl (Exception (''File not found: '' @ path)),
               \<lparr>calls = calls s @ [GetRepo repo_full_name], world = w1\<rparr>)"
    by (simp add: read_file_def perform_def v)
  have 2: "github_get_repo (github self) repo_full_name (world s) = (Inr repo, w1)
            \<and> repo_get_contents (github self) repo path w1 = (Inl e, w2)
            \<and> gh_status e = 404 \<longrightarrow>
            read_file utf8_decode self repo_full_name path s =
              (Inl (Exception (''File not found: '' @ path)),
               \<lparr>calls = calls s @ [GetRepo repo_full_name, GetContents (rp_full_name repo) path],
                world = w2\<rparr>)"
    by (simp add: read_file_def perform_def v)
  have 3: "github_get_repo (github self) repo_full_name (world s) = (Inl e, w1)
            \<and> gh_status e \<noteq> 404 \<and> gh_data e = Some d \<longrightarrow>
            read_file utf8_decode self repo_full_name path s =
              (Inl (Exception (''Failed to read file: ''
                      @ (case d ''message'' of Some m \<Rightarrow> m | None \<Rightarrow> gh_str e))),
               \<lparr>calls = calls s @ [GetRepo repo_full_name], world = w1\<rparr>)"
    by (simp add: read_file_def perform_def raise_wrapped_def v)
  have 4: "github_get_repo (github self) repo_full_name (world s) = (Inr repo, w1)
            \<and> repo_get_contents (github self) repo path w1 = (Inl e, w2)
            \<and> gh_status e \<noteq> 404 \<and> gh_data e = Some d \<longrightarrow>
            read_file utf8_decode self repo_full_name path s =
              (Inl (Exception (''Failed to read file: ''
                      @ (case d ''message'' of Some m \<Rightarrow> m | None \<Rightarrow> gh_str e))),
               \<lparr>calls = calls s @ [GetRepo repo_full_name, GetContents (rp_full_name repo) path],
                world = w2\<rparr>)"
    by (simp add: read_file_def perform_def raise_wrapped_def v)
  have 5: "(github_get_repo (github self) repo_full_name (world s) = (Inl e, w1)
             \<or> github_get_repo (github self) repo_full_name (world s) = (Inr repo, w1)
                \<and> repo_get_contents (github self) repo path w1 = (Inl e, w2))
            \<and> fst (read_file utf8_decode self repo_full_name path s)
                = Inl (Exception (''Failed to read file: '' @ msg)) \<longrightarrow>
            gh_status e \<noteq> 404"
  proof (intro impI notI)
    assume h: "(github_get_repo (github self) repo_full_name (world s) = (Inl e, w1)
             \<or> github_get_repo (github self) repo_full_name (world s) = (Inr repo, w1)
                \<and> repo_get_contents (github self) repo path w1 = (Inl e, w2))
            \<and> fst (read_file utf8_decode self repo_full_name path s)
                = Inl (Exception (''Failed to read file: '' @ msg))"
      and st: "gh_status e = 404"
    from h st 1 2 have "fst (read_file utf8_decode self repo_full_name path s)
                          = Inl (Exception (''File not found: '' @ path))"
      by auto
    with h show False by simp
  qed
  from 1 2 3 4 5 show ?thesis by (intro conjI)
qed

theorem read_file_not_found_message_witness:
  "fst (read_file Some (mem_client id id) ''octo/missing'' ''a.txt'' demo_net)
     = Inl (Exception ''File not found: a.txt'')
   \<and> fst (read_file Some (mem_client id id) ''octo/demo'' ''nope.txt'' demo_net)
     = Inl (Exception ''File not found: nope.txt'')
   \<and> fst (read_file Some (outage_client (gh_error 500 ''Server Error'')) ''octo/demo''
            ''README.md'' demo_net)
     = Inl (Exception ''Failed to read file: Server Error'')
   \<and> gh_str (gh_error 500 ''Server Error'') \<noteq> ''Server Error''
   \<and> fst (read_file Some
            (unreachable_client
               \<lparr>gh_status = 502, gh_data = Some Map.empty, gh_str = ''502 Bad Gateway''\<rparr>)
            ''octo/demo'' ''README.md'' demo_net)
     = Inl (Exception ''Failed to read file: 502 Bad Gateway'')"
proof -
  let ?nf = "gh_error 404 ''Not Found''"
  let ?e = "gh_error 500 ''Server Error''"
  let ?e2 = "\<lparr>gh_status = 502, gh_data = Some Map.empty, gh_str = ''502 Bad Gateway''\<rparr>"
  let ?repo = "\<lparr>rp_full_name = ''octo/demo'', rp_name = ''demo'',
                rp_html_url = ''https://github.com/octo/demo'', rp_private = False,
                rp_description = Some ''demo''\<rparr>"
  have wf1: "\<not> malformed_repo_id ''octo/missing''" and wf2: "\<not> malformed_repo_id ''octo/demo''"
    by (simp_all add: malformed_repo_id_def)
  have r1: "github_get_repo (github (mem_client id id)) ''octo/missing'' (world demo_net)
              = (Inl ?nf, demo_world)"
    by (simp add: mem_defs)
  have r2: "github_get_repo (github (mem_client id id)) ''octo/demo'' (world demo_net)
              = (Inr ?repo, demo_world)"
    by (simp add: mem_defs)
  have p2: "repo_get_contents (github (mem_client id id)) ?repo ''nope.txt'' demo_world
              = (Inl ?nf, demo_world)"
    by (simp add: mem_defs)
  have r3: "github_get_repo (github (outage_client ?e)) ''octo/demo'' (world demo_net)
              = (Inr ?repo, demo_world)"
    by (simp add: mem_defs)
  have p3: "repo_get_contents (github (outage_client ?e)) ?repo ''README.md'' demo_world
              = (Inl ?e, demo_world)"
    by (simp add: mem_defs)
  have r4: "github_get_repo (github (unreachable_client ?e2)) ''octo/demo'' (world demo_net)
              = (Inl ?e2, demo_world)"
    by (simp add: mem_defs)
  have st: "gh_status ?nf = 404" "gh_status ?e \<noteq> 404" "gh_status ?e2 \<noteq> 404"
    by (simp_all add: gh_error_def)
  have body: "gh_data ?e = Some [''message'' \<mapsto> ''Server Error'']" "gh_data ?e2 = Some Map.empty"
    by (simp_all add: gh_error_def)
  have n: "gh_str ?e \<noteq> ''Server Error''" "gh_str ?e2 = ''502 Bad Gateway''"
    by (simp_all add: gh_error_def)
  note t = read_file_not_found_message
  have a: "fst (read_file Some (mem_client id id) ''octo/missing'' ''a.txt'' demo_net)
     = Inl (Exception ''File not found: a.txt'')"
    using t[OF wf1, THEN conjunct1, rule_format, OF conjI[OF r1 st(1)],
            where utf8_decode = Some and path = "''a.txt''"]
    by simp
  have b: "fst (read_file Some (mem_client id id) ''octo/demo'' ''nope.txt'' demo_net)
     = Inl (Exception ''File not found: nope.txt'')"
    using t[OF wf2, THEN conjunct2, THEN conjunct1, rule_format,
            OF conjI[OF r2 conjI[OF p2 st(1)]], where utf8_decode = Some]
    by simp
  have c: "fst (read_file Some (outage_client ?e) ''octo/demo'' ''README.md'' demo_net)
     = Inl (Exception ''Failed to read file: Server Error'')"
    using t[OF wf2, THEN conjunct2, THEN conjunct2, THEN conjunct2, THEN conjunct1,
            rule_format, OF conjI[OF r3 conjI[OF p3 conjI[OF st(2) body(1)]]],
            where utf8_decode = Some]
    by simp
  have d: "fst (read_file Some (unreachable_client ?e2) ''octo/demo'' ''README.md'' demo_net)
     = Inl (Exception ''Failed to read file: 502 Bad Gateway'')"
    using t[OF wf2, THEN conjunct2, THEN conjunct2, THEN conjunct1, rule_format,
            OF conjI[OF r4 conjI[OF st(3) body(2)]],
            where utf8_decode = Some and path = "''README.md''"] n(2)
    by simp
  from a b c n(1) d show ?thesis by (intro conjI)
qed

text \<open>
  Outside the claim: with an empty error body and a status other than 404 the handler
  itself fails on \<open>e.data.get\<close>, and on a directory listing the read of \<open>path\<close> fails.
\<close>

lemma read_file_failure_empty_body:
  assumes wf: "\<not> malformed_repo_id repo_full_name"
    and repo: "github_get_repo (github self) repo_full_name (world s) = (Inr repo, w1)"
    and probe: "repo_get_contents (github self) repo path w1 = (Inl e, w2)"
    and st: "gh_status e \<noteq> 404"
    and body: "gh_data e = None"
  shows "fst (read_file utf8_decode self repo_full_name path s) = Inl (AttributeError ''get'')"
  using repo probe st body
  by (simp add: read_file_def perform_def raise_wrapped_def
      validate_repo_name_wellformed[OF wf])

lemma read_file_on_directory:
  assumes wf: "\<not> malformed_repo_id repo_full_name"
    and repo: "github_get_repo (github self) repo_full_name (world s) = (Inr repo, w1)"
    and probe: "repo_get_contents (github self) repo path w1 = (Inr (ContentList entries), w2)"
  shows "fst (read_file utf8_decode self repo_full_name path s) = Inl (AttributeError ''path'')"
  using repo probe
  by (simp add: read_file_def perform_def validate_repo_name_wellformed[OF wf])

section \<open>Properties: \<open>create_repo\<close>\<close>

text \<open>
  Claim C5 as stated fails for the client's \<open>create_repo\<close>: called with
  \<open>private = True\<close> it requests a private repository, and the record it returns on the
  reference provider is flagged private.
\<close>

theorem create_repo_private_requested:
  "calls (snd (create_repo (mem_client id id) ''demo2'' True ''desc'' demo_net))
     = [CreateRepo ''demo2'' True ''desc'' True]
   \<and> fst (create_repo (mem_client id id) ''demo2'' True ''desc'' demo_net)
     = Inr \<lparr>rd_name = ''demo2'', rd_url = ''https://github.com/octo/demo2'',
            rd_private = True, rd_description = Some ''desc''\<rparr>"
  by (simp add: create_repo_def perform_def mem_defs Let_def)

text \<open>
  Claim C5, as amended. \<open>create_repo\<close> makes one provider call, which carries its
  \<open>private\<close> argument unchanged, and the visibility flag of the record it returns is
  the one of the repository object the provider answers with. The dispatch handler
  \<open>mcp_create_repo\<close> has no such parameter: with a resolved token its one call requests
  \<open>private = False\<close>, and without one it makes no call.
\<close>

theorem create_repo_visibility:
  "calls (snd (create_repo self name private_flag description s))
     = calls s @ [CreateRepo name private_flag description True]
   \<and> (user_create_repo (github self) name private_flag description True (world s) = (Inr repo, w1)
        \<longrightarrow> fst (create_repo self name private_flag description s)
              = Inr \<lparr>rd_name = rp_name repo, rd_url = rp_html_url repo,
                     rd_private = rp_private repo, rd_description = rp_description repo\<rparr>)
   \<and> (get_github_client Github environ token = Some client \<longrightarrow>
        calls (snd (mcp_create_repo Github environ name description token s))
          = calls s @ [CreateRepo name False description True]
        \<and> (user_create_repo (github client) name False description True (world s)
              = (Inr repo, w1)
            \<longrightarrow> fst (mcp_create_repo Github environ name description token s)
                  = Inr (Result \<lparr>rd_name = rp_name repo, rd_url = rp_html_url repo,
                                 rd_private = rp_private repo,
                                 rd_description = rp_description repo\<rparr>)))
   \<and> (get_github_client Github environ token = None \<longrightarrow>
        mcp_create_repo Github environ name description token s
          = (Inr (ErrorDict ''GitHub token not configured''), s))"
proof -
  have a: "\<And>self private_flag. calls (snd (create_repo self name private_flag description s))
     = calls s @ [CreateRepo name private_flag description True]"
    by (simp add: create_repo_def perform_def split: prod.splits sum.splits)
  have b: "\<And>self private_flag. user_create_repo (github self) name private_flag description True (world s) = (Inr repo, w1)
        \<Longrightarrow> fst (create_repo self name private_flag description s)
              = Inr \<lparr>rd_name = rp_name repo, rd_url = rp_html_url repo,
                     rd_private = rp_private repo, rd_description = rp_description repo\<rparr>"
    by (simp add: create_repo_def perform_def)
  have c: "\<And>client. get_github_client Github environ token = Some client \<Longrightarrow>
        mcp_create_repo Github environ name description token s
          = (case create_repo client name False description s of
             (Inl e, s1) \<Rightarrow> (Inl e, s1)
           | (Inr d, s1) \<Rightarrow> (Inr (Result d), s1))"
    by (simp add: mcp_create_repo_def)
  have c1: "\<And>client. get_github_client Github environ token = Some client \<Longrightarrow>
        calls (snd (mcp_create_repo Github environ name description token s))
          = calls s @ [CreateRepo name False description True]"
    using a[of _ False] by (simp add: c split: prod.splits sum.splits) (metis snd_conv)
  have c2: "\<And>client. get_github_client Github environ token = Some client \<Longrightarrow>
       user_create_repo (github client) name False description True (world s) = (Inr repo, w1)
        \<Longrightarrow> fst (mcp_create_repo Github environ name description token s)
                  = Inr (Result \<lparr>rd_name = rp_name repo, rd_url = rp_html_url repo,
                                 rd_private = rp_private repo,
                                 rd_description = rp_description repo\<rparr>)"
    using b[of _ False] by (simp add: c split: prod.splits sum.splits) (metis fst_conv sum.inject(2) sum.distinct(1))
  have d: "get_github_client Github environ token = None \<Longrightarrow>
        mcp_create_repo Github environ name description token s
          = (Inr (ErrorDict ''GitHub token not configured''), s)"
    by (simp add: mcp_create_repo_def)
  from a b c1 c2 d show ?thesis by blast
qed

theorem create_repo_visibility_witness:
  "calls (snd (mcp_create_repo (\<lambda>tok. mem_github id id) [''GITHUB_TOKEN'' \<mapsto> ''ghp_env'']
                 ''demo2'' ''desc'' None demo_net))
     = [CreateRepo ''demo2'' False ''desc'' True]
   \<and> fst (mcp_create_repo (\<lambda>tok. mem_github id id) [''GITHUB_TOKEN'' \<mapsto> ''ghp_env'']
            ''demo2'' ''desc'' None demo_net)
     = Inr (Result \<lparr>rd_name = ''demo2'', rd_url = ''https://github.com/octo/demo2'',
                    rd_private = False, rd_description = Some ''desc''\<rparr>)
   \<and> mcp_create_repo (\<lambda>tok. mem_github id id) Map.empty ''demo2'' ''desc'' None demo_net
     = (Inr (ErrorDict ''GitHub token not configured''), demo_net)"
proof -
  let ?G = "\<lambda>tok::string. mem_github id id"
  let ?env = "[''GITHUB_TOKEN'' \<mapsto> ''ghp_env'']"
  let ?client = "\<lparr>client_token = ''ghp_env'', github = mem_github id id\<rparr>"
  let ?repo = "\<lparr>rp_full_name = ''octo/demo2'', rp_name = ''demo2'',
                rp_html_url = ''https://github.com/octo/demo2'', rp_private = False,
                rp_description = Some ''desc''\<rparr>"
  have g1: "get_github_client ?G ?env None = Some ?client"
    by (simp add: get_github_client_def github_client_init_def py_or_def py_truthy_def)
  have g2: "get_github_client ?G Map.empty None = None"
    by (simp add: get_github_client_def github_client_init_def py_or_def py_truthy_def)
  have u: "user_create_repo (github ?client) ''demo2'' False ''desc'' True (world demo_net)
             = (Inr ?repo, snd (mem_create_repo id ''demo2'' False ''desc'' True demo_world))"
    by (simp add: mem_defs Let_def)
  have n: "calls demo_net = []" "rp_name ?repo = ''demo2''" by (simp_all add: demo_net_def)
  from create_repo_visibility[where Github = ?G and environ = ?env and token = None
         and client = ?client and name = "''demo2''" and description = "''desc''"
         and s = demo_net and repo = ?repo and self = ?client and private_flag = False
         and ?w1.0 = "snd (mem_create_repo id ''demo2'' False ''desc'' True demo_world)"]
       create_repo_visibility[where Github = ?G and environ = Map.empty and token = None
         and name = "''demo2''" and description = "''desc''" and s = demo_net
         and self = ?client and private_flag = False]
       g1 g2 u n
  show ?thesis by simp
qed

section \<open>Properties: credentials\<close>

text \<open>
  Claim C8 as stated fails for the speech key: the constructor's only credential
  parameter does not reach it. With a caller-supplied key the speech key is still the
  one of the environment, and with none in the environment speech synthesis is disabled.
\<close>

theorem speech_key_not_overridable:
  "elevenlabs_key (ai_documentation_generator_init
       (scripted_sdk (Inr ''text'') (Inr []) :: unit ai_sdk)
       [''ELEVENLABS_API_KEY'' \<mapsto> ''env-speech-key''] (Some ''caller-key''))
     = Some ''env-speech-key''
   \<and> fst (text_to_speech
       (ai_documentation_generator_init (scripted_sdk (Inr ''text'') (Inr []) :: unit ai_sdk)
          Map.empty (Some ''caller-key''))
       ''hello'' \<lparr>calls = [], world = ()\<rparr>)
     = Inl (ValueError
         ''ElevenLabs API key not configured. Set ELEVENLABS_API_KEY environment variable.'')"
  by (simp add: ai_documentation_generator_init_def text_to_speech_def py_or_def py_truthy_def)

text \<open>
  Claim C8, as amended. A non-empty token given to \<open>GitHubClient\<close> and a non-empty key
  given to \<open>AIDocumentationGenerator\<close> are the resolved credentials whatever the
  environment holds; the speech key is the environment's \<open>ELEVENLABS_API_KEY\<close> whatever
  the caller supplies.
\<close>

theorem credential_resolution:
  "(tok \<noteq> [] \<longrightarrow>
      github_client_init Github environ (Some tok)
        = Inr \<lparr>client_token = tok, github = Github tok\<rparr>)
   \<and> (key \<noteq> [] \<longrightarrow>
        gemini_key (ai_documentation_generator_init sdk environ (Some key)) = Some key
        \<and> gemini_model (ai_documentation_generator_init sdk environ (Some key))
            = Some (GenerativeModel sdk key ''gemini-2.5-flash''))
   \<and> elevenlabs_key (ai_documentation_generator_init sdk environ user_gemini_key)
        = environ ''ELEVENLABS_API_KEY''"
  by (simp add: github_client_init_def ai_documentation_generator_init_def py_or_def
      py_truthy_def Let_def)

theorem credential_resolution_witness:
  "github_client_init (\<lambda>tok. mem_github id id)
       [''GITHUB_TOKEN'' \<mapsto> ''ghp_env'', ''GEMINI_API_KEY'' \<mapsto> ''env-gemini-key'']
       (Some ''ghp_caller'')
     = Inr \<lparr>client_token = ''ghp_caller'', github = mem_github id id\<rparr>
   \<and> gemini_key (ai_documentation_generator_init
        (scripted_sdk (Inr ''text'') (Inr []) :: unit ai_sdk)
        [''GITHUB_TOKEN'' \<mapsto> ''ghp_env'', ''GEMINI_API_KEY'' \<mapsto> ''env-gemini-key'']
        (Some ''caller-key''))
     = Some ''caller-key''"
  using credential_resolution[where tok = "''ghp_caller''" and key = "''caller-key''"
          and Github = "\<lambda>tok. mem_github id id"
          and sdk = "scripted_sdk (Inr ''text'') (Inr []) :: unit ai_sdk"
          and user_gemini_key = None
          and environ = "[''GITHUB_TOKEN'' \<mapsto> ''ghp_env'',
                          ''GEMINI_API_KEY'' \<mapsto> ''env-gemini-key'']"]
  by simp

section \<open>Properties: \<open>process_file\<close>\<close>

text \<open>\<open>generate_documentation\<close> never calls the speech provider.\<close>

lemma generate_documentation_no_speech:
  "filter is_speech_call (calls (snd (generate_documentation self c l f s)))
     = filter is_speech_call (calls s)"
  by (auto simp: generate_documentation_def perform_def Let_def
      split: option.splits prod.splits sum.splits)

text \<open>
  Claim C6. When the text-generation call raises, \<open>process_file\<close> raises the wrapped
  failure and the only call made is the text-generation call. Whenever
  \<open>generate_documentation\<close> fails, \<open>process_file\<close> fails with the same error in the same
  state and no speech call has been added. When it succeeds, \<open>process_file\<close> raises the
  failure of \<open>text_to_speech\<close> or returns documentation, summary and audio together; a
  returned triple always comes from both steps succeeding.
\<close>

theorem process_file_all_or_first_failure:
  "(gemini_model self = Some model
      \<and> model (build_prompt file_content language filename) (world s) = (Inl err, w1) \<longrightarrow>
      process_file self file_content language filename s
        = (Inl (Exception (''Failed to generate documentation: '' @ err)),
           \<lparr>calls = calls s @ [GenerateContent (build_prompt file_content language filename)],
            world = w1\<rparr>))
   \<and> (generate_documentation self file_content language filename s = (Inl e, s1) \<longrightarrow>
        process_file self file_content language filename s = (Inl e, s1)
        \<and> filter is_speech_call (calls s1) = filter is_speech_call (calls s))
   \<and> (generate_documentation self file_content language filename s = (Inr result, s1)
        \<and> text_to_speech self (summary result) s1 = (Inl e, s2) \<longrightarrow>
        process_file self file_content language filename s = (Inl e, s2))
   \<and> (generate_documentation self file_content language filename s = (Inr result, s1)
        \<and> text_to_speech self (summary result) s1 = (Inr audio, s2) \<longrightarrow>
        process_file self file_content language filename s
          = (Inr (documentation result, summary result, audio), s2))
   \<and> (process_file self file_content language filename s = (Inr (d, su, a), s2) \<longrightarrow>
        (\<exists>s1. generate_documentation self file_content language filename s
                 = (Inr \<lparr>documentation = d, summary = su\<rparr>, s1)
              \<and> text_to_speech self su s1 = (Inr a, s2)))"
proof (intro conjI impI)
  assume "gemini_model self = Some model
      \<and> model (build_prompt file_content language filename) (world s) = (Inl err, w1)"
  then show "process_file self file_content language filename s
        = (Inl (Exception (''Failed to generate documentation: '' @ err)),
           \<lparr>calls = calls s @ [GenerateContent (build_prompt file_content language filename)],
            world = w1\<rparr>)"
    by (simp add: process_file_def generate_documentation_def perform_def Let_def)
next
  assume g: "generate_documentation self file_content language filename s = (Inl e, s1)"
  then show "process_file self file_content language filename s = (Inl e, s1)"
    by (simp add: process_file_def)
  from generate_documentation_no_speech[of self file_content language filename s] g
  show "filter is_speech_call (calls s1) = filter is_speech_call (calls s)" by simp
next
  assume "generate_documentation self file_content language filename s = (Inr result, s1)
        \<and> text_to_speech self (summary result) s1 = (Inl e, s2)"
  then show "process_file self file_content language filename s = (Inl e, s2)"
    by (simp add: process_file_def)
next
  assume "generate_documentation self file_content language filename s = (Inr result, s1)
        \<and> text_to_speech self (summary result) s1 = (Inr audio, s2)"
  then show "process_file self file_content language filename s
          = (Inr (documentation result, summary result, audio), s2)"
    by (simp add: process_file_def)
next
  assume p: "process_file self file_content language filename s = (Inr (d, su, a), s2)"
  obtain r s1 where g: "generate_documentation self file_content language filename s = (r, s1)"
    by (cases "generate_documentation self file_content language filename s")
  show "\<exists>s1. generate_documentation self file_content language filename s
                 = (Inr \<lparr>documentation = d, summary = su\<rparr>, s1)
              \<and> text_to_speech self su s1 = (Inr a, s2)"
  proof (cases r)
    case (Inl e)
    with p g show ?thesis by (simp add: process_file_def)
  next
    case (Inr res)
    obtain r2 s2' where t: "text_to_speech self (summary res) s1 = (r2, s2')"
      by (cases "text_to_speech self (summary res) s1")
    show ?thesis
    proof (cases r2)
      case (Inl e)
      with p g Inr t show ?thesis by (simp add: process_file_def)
    next
      case r2: (Inr au)
      with p g Inr t have "documentation res = d" "summary res = su" "au = a" "s2' = s2"
        by (simp_all add: process_file_def)
      then have "res = \<lparr>documentation = d, summary = su\<rparr>" by (cases res) simp
      with g Inr t r2 \<open>au = a\<close> \<open>s2' = s2\<close> \<open>summary res = su\<close> show ?thesis by auto
    qed
  qed
qed

theorem process_file_all_or_first_failure_witness:
  "process_file
     (ai_documentation_generator_init
        (scripted_sdk (Inl ''quota exceeded'') (Inr [''ab'', ''cd'']) :: unit ai_sdk)
        [''GEMINI_API_KEY'' \<mapsto> ''g-key'', ''ELEVENLABS_API_KEY'' \<mapsto> ''e-key''] None)
     ''x = 1'' ''python'' ''a.py'' \<lparr>calls = [], world = ()\<rparr>
     = (Inl (Exception ''Failed to generate documentation: quota exceeded''),
        \<lparr>calls = [GenerateContent (build_prompt ''x = 1'' ''python'' ''a.py'')], world = ()\<rparr>)
   \<and> process_file
     (ai_documentation_generator_init
        (scripted_sdk (Inr ''Hi. Yo'') (Inl ''voice not found'') :: unit ai_sdk)
        [''GEMINI_API_KEY'' \<mapsto> ''g-key'', ''ELEVENLABS_API_KEY'' \<mapsto> ''e-key''] None)
     ''x = 1'' ''python'' ''a.py'' \<lparr>calls = [], world = ()\<rparr>
     = (Inl (Exception ''Failed to generate audio: voice not found''),
        \<lparr>calls = [GenerateContent (build_prompt ''x = 1'' ''python'' ''a.py''),
                  TextToSpeech ''Hi. Yo.'' ''EXAVITQu4vr4xnSDxMaL'' ''eleven_monolingual_v1''],
         world = ()\<rparr>)
   \<and> process_file
     (ai_documentation_generator_init
        (scripted_sdk (Inr ''Hi. Yo'') (Inr [''ab'', ''cd'']) :: unit ai_sdk)
        [''GEMINI_API_KEY'' \<mapsto> ''g-key'', ''ELEVENLABS_API_KEY'' \<mapsto> ''e-key''] None)
     ''x = 1'' ''python'' ''a.py'' \<lparr>calls = [], world = ()\<rparr>
     = (Inr (''Hi. Yo'', ''Hi. Yo.'', ''abcd''),
        \<lparr>calls = [GenerateContent (build_prompt ''x = 1'' ''python'' ''a.py''),
                  TextToSpeech ''Hi. Yo.'' ''EXAVITQu4vr4xnSDxMaL'' ''eleven_monolingual_v1''],
         world = ()\<rparr>)"
proof -
  let ?env = "[''GEMINI_API_KEY'' \<mapsto> ''g-key'', ''ELEVENLABS_API_KEY'' \<mapsto> ''e-key'']"
  let ?s = "\<lparr>calls = [], world = ()\<rparr> :: unit net"
  let ?p = "build_prompt ''x = 1'' ''python'' ''a.py''"
  let ?s1 = "\<lparr>calls = [GenerateContent ?p], world = ()\<rparr> :: unit net"
  let ?s2 = "\<lparr>calls = [GenerateContent ?p,
                TextToSpeech ''Hi. Yo.'' ''EXAVITQu4vr4xnSDxMaL'' ''eleven_monolingual_v1''],
              world = ()\<rparr> :: unit net"
  let ?A = "ai_documentation_generator_init
        (scripted_sdk (Inl ''quota exceeded'') (Inr [''ab'', ''cd'']) :: unit ai_sdk) ?env None"
  let ?B = "ai_documentation_generator_init
        (scripted_sdk (Inr ''Hi. Yo'') (Inl ''voice not found'') :: unit ai_sdk) ?env None"
  let ?C = "ai_documentation_generator_init
        (scripted_sdk (Inr ''Hi. Yo'') (Inr [''ab'', ''cd'']) :: unit ai_sdk) ?env None"
  let ?r = "\<lparr>documentation = ''Hi. Yo'', summary = ''Hi. Yo.''\<rparr>"
  have parse: "parse_response ''Hi. Yo'' = ?r"
    by (simp add: parse_response_def py_split_def extract_summary_fallback_def
        re_split_sentences_def is_sentence_delim_def py_strip_def py_isspace_def)
  have mA: "gemini_model ?A = Some (\<lambda>prompt w. (Inl ''quota exceeded'', w))"
    by (simp add: ai_documentation_generator_init_def scripted_sdk_def py_or_def py_truthy_def)
  have cA: "(\<lambda>prompt w. (Inl ''quota exceeded'', w)) ?p (world ?s) = (Inl ''quota exceeded'', ())"
    by simp
  have gB: "generate_documentation ?B ''x = 1'' ''python'' ''a.py'' ?s = (Inr ?r, ?s1)"
    by (simp add: generate_documentation_def ai_documentation_generator_init_def
        scripted_sdk_def py_or_def py_truthy_def perform_def parse)
  have tB: "text_to_speech ?B (summary ?r) ?s1
              = (Inl (Exception ''Failed to generate audio: voice not found''), ?s2)"
    by (simp add: text_to_speech_def ai_documentation_generator_init_def
        scripted_sdk_def py_or_def py_truthy_def perform_def)
  have gC: "generate_documentation ?C ''x = 1'' ''python'' ''a.py'' ?s = (Inr ?r, ?s1)"
    by (simp add: generate_documentation_def ai_documentation_generator_init_def
        scripted_sdk_def py_or_def py_truthy_def perform_def parse)
  have tC: "text_to_speech ?C (summary ?r) ?s1 = (Inr ''abcd'', ?s2)"
    by (simp add: text_to_speech_def ai_documentation_generator_init_def
        scripted_sdk_def py_or_def py_truthy_def perform_def)
  note pf = process_file_all_or_first_failure
  have a: "process_file ?A ''x = 1'' ''python'' ''a.py'' ?s
     = (Inl (Exception ''Failed to generate documentation: quota exceeded''), ?s1)"
    using pf[THEN conjunct1, rule_format, OF conjI[OF mA cA]] by simp
  have b: "process_file ?B ''x = 1'' ''python'' ''a.py'' ?s
     = (Inl (Exception ''Failed to generate audio: voice not found''), ?s2)"
    by (rule pf[THEN conjunct2, THEN conjunct2, THEN conjunct1, rule_format,
          OF conjI[OF gB tB]])
  have c: "process_file ?C ''x = 1'' ''python'' ''a.py'' ?s
     = (Inr (''Hi. Yo'', ''Hi. Yo.'', ''abcd''), ?s2)"
    using pf[THEN conjunct2, THEN conjunct2, THEN conjunct2, THEN conjunct1, rule_format,
          OF conjI[OF gC tC]] by simp
  from a b c show ?thesis by (intro conjI)
qed

section \<open>Properties: commit then read\<close>

text \<open>
  On the reference provider a successful \<open>commit_file\<close>, through either branch, leaves
  the encoded content stored at \<open>path\<close> of the repository, and \<open>read_file\<close> decodes
  what is stored there.
\<close>

lemma mem_commit_world:
  assumes v: "validate_repo_name rid = Inr ()"
    and c: "commit_file (mem_client utf8_encode sha_of) rid path content message s = (Inr r, s')"
  shows "\<exists>rs'. gw_repos (world s') rid = Some rs'
          \<and> rs_files rs' path = Some (utf8_encode content)"
proof (cases "gw_repos (world s) rid")
  case None
  with v c show ?thesis
    by (simp add: commit_file_def perform_def mem_client_def mem_github_def mem_get_repo_def
        raise_wrapped_def gh_error_def)
next
  case (Some rs)
  show ?thesis
  proof (cases "rs_files rs path")
    case None
    show ?thesis
    proof (cases "mem_entries sha_of rid rs path")
      case Nil
      with v c Some None show ?thesis
        by (auto simp: commit_file_def commit_file_write_def perform_def mem_client_def
            mem_github_def mem_get_repo_def mem_get_contents_def mem_create_file_def
            mem_store_def mem_repository_def gh_error_def)
    next
      case (Cons a list)
      with v c Some None show ?thesis
        by (simp add: commit_file_def commit_file_write_def perform_def mem_client_def
            mem_github_def mem_get_repo_def mem_get_contents_def mem_repository_def)
    qed
  next
    case (Some b)
    with v c \<open>gw_repos (world s) rid = Some rs\<close> show ?thesis
      by (auto simp: commit_file_def commit_file_write_def perform_def mem_client_def
          mem_github_def mem_get_repo_def mem_get_contents_def mem_update_file_def mem_store_def
          mem_repository_def mem_content_file_def gh_error_def)
  qed
qed

lemma mem_read_stored:
  assumes v: "validate_repo_name rid = Inr ()"
    and w: "gw_repos (world s) rid = Some rs"
    and f: "rs_files rs path = Some b"
    and d: "utf8_decode b = Some text"
  shows "fst (read_file utf8_decode (mem_client utf8_encode sha_of) rid path s)
          = Inr \<lparr>fd_path = path, fd_content = text, fd_url = mem_file_url rid path,
                 fd_size = length b\<rparr>"
  using v w f d
  by (simp add: read_file_def perform_def mem_client_def mem_github_def mem_get_repo_def
      mem_get_contents_def mem_repository_def mem_content_file_def)

text \<open>
  Claim C9. Against the reference provider, for a well-formed identifier and a content
  that the transport encoding round-trips, a successful \<open>commit_file\<close> followed by
  \<open>read_file\<close> of the same path returns that path and that content.
\<close>

theorem commit_then_read_round_trip:
  assumes wf: "\<not> malformed_repo_id rid"
    and codec: "utf8_decode (utf8_encode content) = Some content"
    and c: "commit_file (mem_client utf8_encode sha_of) rid path content message s = (Inr r, s')"
  shows "fst (read_file utf8_decode (mem_client utf8_encode sha_of) rid path s')
          = Inr \<lparr>fd_path = path, fd_content = content, fd_url = mem_file_url rid path,
                 fd_size = length (utf8_encode content)\<rparr>"
proof -
  note v = validate_repo_name_wellformed[OF wf]
  from mem_commit_world[OF v c] obtain rs' where
    1: "gw_repos (world s') rid = Some rs'"
    and 2: "rs_files rs' path = Some (utf8_encode content)"
    by blast
  show ?thesis
    by (rule mem_read_stored[where utf8_decode = utf8_decode and b = "utf8_encode content",
          OF v 1 2 codec])
qed

theorem commit_then_read_round_trip_witness:
  "fst (read_file Some (mem_client id id) ''octo/demo'' ''docs/guide.md''
          (snd (commit_file (mem_client id id) ''octo/demo'' ''docs/guide.md'' ''hello''
                  ''add guide'' demo_net)))
     = Inr \<lparr>fd_path = ''docs/guide.md'', fd_content = ''hello'',
            fd_url = ''https://github.com/octo/demo/blob/main/docs/guide.md'', fd_size = 5\<rparr>
   \<and> fst (read_file Some (mem_client id id) ''octo/demo'' ''README.md''
          (snd (commit_file (mem_client id id) ''octo/demo'' ''README.md'' ''hello''
                  ''edit readme'' demo_net)))
     = Inr \<lparr>fd_path = ''README.md'', fd_content = ''hello'',
            fd_url = ''https://github.com/octo/demo/blob/main/README.md'', fd_size = 5\<rparr>"
proof -
  have wf: "\<not> malformed_repo_id ''octo/demo''"
    by (simp add: malformed_repo_id_def)
  have codec: "Some (id ''hello'') = Some ''hello''" by simp
  have v: "validate_repo_name ''octo/demo'' = Inr ()"
    by (rule validate_repo_name_wellformed[OF wf])
  have c1: "commit_file (mem_client id id) ''octo/demo'' ''docs/guide.md'' ''hello''
               ''add guide'' demo_net
            = (Inr \<lparr>cd_commit_sha = ''docs/guide.mdhello'',
                    cd_url = ''https://github.com/octo/demo/blob/main/docs/guide.md'',
                    cd_action = ''created'', cd_path = ''docs/guide.md''\<rparr>,
               snd (commit_file (mem_client id id) ''octo/demo'' ''docs/guide.md'' ''hello''
                  ''add guide'' demo_net))"
    by (simp add: commit_file_def commit_file_write_def perform_def v mem_defs)
  have c2: "commit_file (mem_client id id) ''octo/demo'' ''README.md'' ''hello''
               ''edit readme'' demo_net
            = (Inr \<lparr>cd_commit_sha = ''README.mdhello'',
                    cd_url = ''https://github.com/octo/demo/blob/main/README.md'',
                    cd_action = ''updated'', cd_path = ''README.md''\<rparr>,
               snd (commit_file (mem_client id id) ''octo/demo'' ''README.md'' ''hello''
                  ''edit readme'' demo_net))"
    by (simp add: commit_file_def commit_file_write_def perform_def v mem_defs)
  from commit_then_read_round_trip[where utf8_decode = Some and utf8_encode = id
         and content = "''hello''", OF wf codec c1]
       commit_then_read_round_trip[where utf8_decode = Some and utf8_encode = id
         and content = "''hello''", OF wf codec c2]
  show ?thesis by (simp add: mem_file_url_def)
qed

section \<open>Properties: parsing the generated text\<close>

text \<open>
  How \<open>split\<close> on a marker relates to the occurrences of the marker: none gives one
  part, exactly one gives the text before and the text after it, and two or more
  occurrences of the summary marker, which cannot overlap, give three parts or more.
\<close>

lemma count_occurrences_drop_le:
  "count_occurrences sep (drop n s) \<le> count_occurrences sep s"
proof (induction s arbitrary: n)
  case Nil
  then show ?case by simp
next
  case (Cons x xs)
  show ?case
  proof (cases n)
    case 0
    then show ?thesis by simp
  next
    case (Suc m)
    with Cons[of m] show ?thesis by simp
  qed
qed

lemma py_split_from_no_occurrence:
  "count_occurrences sep s = 0 \<Longrightarrow> py_split_from sep cur s = [cur @ s]"
  by (induction s arbitrary: cur) (auto split: if_splits)

lemma py_split_from_nonempty: "py_split_from sep cur s \<noteq> []"
  by (induction sep cur s rule: py_split_from.induct) auto

lemma py_split_from_one_occurrence:
  assumes "sep \<noteq> []" "count_occurrences sep s = 1"
  shows "\<exists>l r. s = l @ sep @ r \<and> py_split_from sep cur s = [cur @ l, r]"
  using assms(2)
proof (induction s arbitrary: cur)
  case Nil
  then show ?case by simp
next
  case (Cons x xs)
  show ?case
  proof (cases "prefix sep (x # xs)")
    case True
    then obtain r where r: "x # xs = sep @ r" by (auto simp: prefix_def)
    then have d: "drop (length sep) (x # xs) = r" by (metis append_eq_conv_conj)
    from Cons.prems True have "count_occurrences sep xs = 0" by simp
    moreover have "r = drop (length sep - 1) xs"
      using d assms(1) by (cases sep) auto
    ultimately have "count_occurrences sep r = 0"
      using count_occurrences_drop_le[of sep "length sep - 1" xs] by simp
    then have "py_split_from sep [] r = [r]"
      using py_split_from_no_occurrence[of sep r "[]"] by simp
    with True assms(1) d have "py_split_from sep cur (x # xs) = [cur @ [], r]" by simp
    with r show ?thesis by (metis append_Nil)
  next
    case False
    with Cons.prems have "count_occurrences sep xs = 1" by simp
    from Cons.IH[OF this, of "cur @ [x]"] obtain l r where
      lr: "xs = l @ sep @ r" "py_split_from sep (cur @ [x]) xs = [(cur @ [x]) @ l, r]" by blast
    from False lr have "x # xs = (x # l) @ sep @ r \<and> py_split_from sep cur (x # xs) = [cur @ (x # l), r]"
      by simp
    then show ?thesis by blast
  qed
qed

lemma py_split_from_some_occurrence:
  "sep \<noteq> [] \<Longrightarrow> 1 \<le> count_occurrences sep s \<Longrightarrow> 2 \<le> length (py_split_from sep cur s)"
proof (induction s arbitrary: cur)
  case Nil
  then show ?case by simp
next
  case (Cons x xs)
  show ?case
  proof (cases "prefix sep (x # xs)")
    case True
    have "1 \<le> length (py_split_from sep [] (drop (length sep) (x # xs)))"
      using py_split_from_nonempty[of sep "[]" "drop (length sep) (x # xs)"]
      by (simp add: Suc_le_eq)
    with True Cons.prems(1) show ?thesis by simp
  next
    case False
    with Cons show ?thesis by simp
  qed
qed

text \<open>No two occurrences of the summary marker overlap.\<close>

lemma summary_marker_no_overlap:
  assumes "prefix ''## Summary'' (x # xs)"
  shows "count_occurrences ''## Summary'' xs = count_occurrences ''## Summary'' (drop 9 xs)"
proof -
  from assms obtain r where "x # xs = ''## Summary'' @ r" by (auto simp: prefix_def)
  then have "xs = ''# Summary'' @ r" by simp
  then show ?thesis by simp
qed

lemma py_split_from_two_occurrences_gen:
  assumes ne: "sep \<noteq> []"
    and no_overlap: "\<And>x xs. prefix sep (x # xs) \<Longrightarrow>
          count_occurrences sep xs = count_occurrences sep (drop (length sep - 1) xs)"
  shows "2 \<le> count_occurrences sep s \<Longrightarrow> 3 \<le> length (py_split_from sep cur s)"
proof (induction s arbitrary: cur)
  case Nil
  then show ?case by simp
next
  case (Cons x xs)
  show ?case
  proof (cases "prefix sep (x # xs)")
    case True
    with Cons.prems have "1 \<le> count_occurrences sep xs" by simp
    then have "1 \<le> count_occurrences sep (drop (length sep - 1) xs)"
      using no_overlap[OF True] by simp
    then have "2 \<le> length (py_split_from sep [] (drop (length sep - 1) xs))"
      by (rule py_split_from_some_occurrence[OF ne])
    moreover have "drop (length sep) (x # xs) = drop (length sep - 1) xs"
      using ne by (cases sep) simp_all
    ultimately show ?thesis using True ne by simp
  next
    case False
    with Cons.prems have "2 \<le> count_occurrences sep xs" by simp
    from Cons.IH[OF this, of "cur @ [x]"] False show ?thesis by simp
  qed
qed

lemma py_split_from_two_occurrences:
  "2 \<le> count_occurrences ''## Summary'' s \<Longrightarrow>
   3 \<le> length (py_split_from ''## Summary'' cur s)"
proof (rule py_split_from_two_occurrences_gen)
  show "''## Summary'' \<noteq> []" by simp
next
  fix x xs assume "prefix ''## Summary'' (x # xs)"
  then have "count_occurrences ''## Summary'' xs
          = count_occurrences ''## Summary'' (drop 9 xs)"
    by (rule summary_marker_no_overlap)
  moreover have "length ''## Summary'' - 1 = (9::nat)" by simp
  ultimately show "count_occurrences ''## Summary'' xs
          = count_occurrences ''## Summary'' (drop (length ''## Summary'' - 1) xs)"
    by (simp only:)
qed

lemma py_split_summary_marker_length:
  "length (py_split s ''## Summary'') = 2 \<longleftrightarrow> count_occurrences ''## Summary'' s = 1"
proof -
  let ?n = "count_occurrences ''## Summary'' s"
  consider "?n = 0" | "?n = 1" | "2 \<le> ?n" by linarith
  then show ?thesis
  proof cases
    case 1
    then show ?thesis by (simp add: py_split_def py_split_from_no_occurrence)
  next
    case 2
    then obtain l r where "py_split_from ''## Summary'' [] s = [[] @ l, r]"
      using py_split_from_one_occurrence[of "''## Summary''" s "[]"] by auto
    with 2 show ?thesis by (simp add: py_split_def)
  next
    case 3
    from py_split_from_two_occurrences[OF 3, of "[]"] 3 show ?thesis
      by (simp add: py_split_def)
  qed
qed

lemma count_occurrences_at_marker:
  "sep \<noteq> [] \<Longrightarrow> 1 \<le> count_occurrences sep (l @ sep @ r)"
proof (induction l)
  case Nil
  then show ?case by (cases sep) simp_all
next
  case (Cons a l)
  then show ?case by simp
qed

lemma py_split_from_at_marker:
  assumes ne: "sep \<noteq> []"
  shows "count_occurrences sep (l @ sep @ r) = 1 \<Longrightarrow>
         py_split_from sep cur (l @ sep @ r) = [cur @ l, r]"
proof (induction l arbitrary: cur)
  case Nil
  obtain x xs where xs: "sep @ r = x # xs" using ne by (cases sep) auto
  have p: "prefix sep (x # xs)" using xs by (metis prefixI)
  have d: "drop (length sep) (x # xs) = r" using xs by (metis append_eq_conv_conj)
  from Nil xs p have "count_occurrences sep xs = 0" by simp
  moreover have "r = drop (length sep - 1) xs" using d ne by (cases sep) auto
  ultimately have "count_occurrences sep r = 0"
    using count_occurrences_drop_le[of sep "length sep - 1" xs] by simp
  then have "py_split_from sep [] r = [r]"
    using py_split_from_no_occurrence[of sep r "[]"] by simp
  with p ne d have "py_split_from sep cur (x # xs) = [cur, r]" by simp
  with xs show ?case by simp
next
  case (Cons a l)
  have ge: "1 \<le> count_occurrences sep (l @ sep @ r)"
    by (rule count_occurrences_at_marker[OF ne])
  with Cons.prems have np: "\<not> prefix sep (a # l @ sep @ r)" by (auto split: if_splits)
  with Cons.prems have "count_occurrences sep (l @ sep @ r) = 1" by simp
  from Cons.IH[OF this, of "cur @ [a]"] np show ?case by simp
qed

lemma nonempty_lines_eq:
  "map py_strip (filter (\<lambda>line. py_strip line \<noteq> []) xs)
     = filter (\<lambda>l. l \<noteq> []) (map py_strip xs)"
  by (induction xs) auto

lemma parse_response_one_marker:
  assumes "count_occurrences ''## Summary'' (left @ ''## Summary'' @ right) = 1"
  shows "parse_response (left @ ''## Summary'' @ right)
          = \<lparr>documentation = py_strip (py_replace ''## Documentation'' [] left),
             summary = py_join '' '' (take 2 (nonempty_lines (py_strip right)))\<rparr>"
proof -
  have "py_split (left @ ''## Summary'' @ right) ''## Summary'' = [left, right]"
    unfolding py_split_def
    using py_split_from_at_marker[of "''## Summary''" left right "[]"] assms by simp
  then show ?thesis
    by (simp add: parse_response_def nonempty_lines_def nonempty_lines_eq Let_def
        del: append.simps)
qed

lemma parse_response_fallback:
  assumes "count_occurrences ''## Summary'' full_response \<noteq> 1"
  shows "parse_response full_response
          = \<lparr>documentation = full_response,
             summary = py_join ''. '' (take 2 (sentence_fragments full_response)) @ ''.''\<rparr>"
proof -
  have n: "length (py_split full_response ''## Summary'') \<noteq> 2"
    using assms by (simp add: py_split_summary_marker_length)
  have "(case py_split full_response ''## Summary'' of
           [part0, part1] \<Rightarrow> f part0 part1 | _ \<Rightarrow> g) = g" for f and g :: doc_dict
    using n by (auto split: list.splits)
  then show ?thesis
    by (simp add: parse_response_def extract_summary_fallback_def sentence_fragments_def
        nonempty_lines_eq Let_def)
qed

lemma py_split_from_char_pieces:
  "c \<notin> set cur \<Longrightarrow> \<forall>x \<in> set (py_split_from [c] cur s). c \<notin> set x"
proof (induction s arbitrary: cur)
  case Nil
  then show ?case by simp
next
  case (Cons a s)
  show ?case
  proof (cases "a = c")
    case True
    then have "py_split_from [c] cur (a # s) = cur # py_split_from [c] [] s" by simp
    moreover have "\<forall>x \<in> set (py_split_from [c] [] s). c \<notin> set x"
      by (rule Cons.IH) simp
    ultimately show ?thesis using Cons.prems by simp
  next
    case False
    then have "py_split_from [c] cur (a # s) = py_split_from [c] (cur @ [a]) s" by simp
    moreover have "\<forall>x \<in> set (py_split_from [c] (cur @ [a]) s). c \<notin> set x"
      using Cons.prems False by (intro Cons.IH) simp
    ultimately show ?thesis by simp
  qed
qed

lemma set_py_strip: "set (py_strip s) \<subseteq> set s"
proof -
  have "set (py_strip s) \<subseteq> set (dropWhile py_isspace s)"
    unfolding py_strip_def using set_dropWhileD by fastforce
  also have "\<dots> \<subseteq> set s" using set_dropWhileD by fastforce
  finally show ?thesis .
qed

lemma nonempty_lines_no_newline:
  "l \<in> set (nonempty_lines t) \<Longrightarrow> CHR 0x0A \<notin> set l"
  unfolding nonempty_lines_def py_split_def
  using py_split_from_char_pieces[of "CHR 0x0A" "[]" t] set_py_strip by fastforce

lemma set_py_join: "set (py_join sep xs) \<subseteq> set sep \<union> \<Union> (set ` set xs)"
  by (induction sep xs rule: py_join.induct) auto

lemma summary_no_newline:
  "CHR 0x0A \<notin> set (py_join '' '' (take 2 (nonempty_lines t)))"
proof
  assume "CHR 0x0A \<in> set (py_join '' '' (take 2 (nonempty_lines t)))"
  with set_py_join[of "'' ''" "take 2 (nonempty_lines t)"]
  obtain l where "l \<in> set (take 2 (nonempty_lines t))" "CHR 0x0A \<in> set l" by auto
  then show False using nonempty_lines_no_newline[of l t] by (auto dest: in_set_takeD)
qed

lemma re_split_sentences_from_pieces:
  "\<forall>c \<in> set cur. \<not> is_sentence_delim c
     \<Longrightarrow> \<forall>x \<in> set (re_split_sentences_from cur s). \<forall>c \<in> set x. \<not> is_sentence_delim c"
proof (induction cur s rule: re_split_sentences_from.induct)
  case (1 cur)
  then show ?case by simp
next
  case (2 cur x xs)
  show ?case
  proof (cases "is_sentence_delim x")
    case True
    then have "re_split_sentences_from cur (x # xs)
                = cur # re_split_sentences_from [] (dropWhile is_sentence_delim xs)"
      by simp
    moreover have "\<forall>y \<in> set (re_split_sentences_from [] (dropWhile is_sentence_delim xs)).
                     \<forall>c \<in> set y. \<not> is_sentence_delim c"
      using "2.IH"(1)[OF True] by simp
    ultimately show ?thesis using "2.prems" by simp
  next
    case False
    then have "re_split_sentences_from cur (x # xs) = re_split_sentences_from (cur @ [x]) xs"
      by simp
    moreover have "\<forall>y \<in> set (re_split_sentences_from (cur @ [x]) xs).
                     \<forall>c \<in> set y. \<not> is_sentence_delim c"
      using "2.IH"(2)[OF False] "2.prems" False by simp
    ultimately show ?thesis by simp
  qed
qed

lemma sentence_fragments_pieces:
  assumes "f \<in> set (sentence_fragments t)"
  shows "f \<noteq> [] \<and> (\<forall>c \<in> set f. \<not> is_sentence_delim c)"
proof -
  from assms obtain p where p: "p \<in> set (re_split_sentences t)" "f = py_strip p" "f \<noteq> []"
    by (auto simp: sentence_fragments_def)
  from p(1) have "\<forall>c \<in> set p. \<not> is_sentence_delim c"
    unfolding re_split_sentences_def
    using re_split_sentences_from_pieces[of "[]" t] by simp
  with p(2,3) set_py_strip[of p] show ?thesis by auto
qed

lemma py_join_nonempty: "xs \<noteq> [] \<Longrightarrow> last xs \<noteq> [] \<Longrightarrow> py_join sep xs \<noteq> []"
  by (induction sep xs rule: py_join.induct) auto

lemma last_py_join:
  "xs \<noteq> [] \<Longrightarrow> last xs \<noteq> [] \<Longrightarrow> last (py_join sep xs) = last (last xs)"
proof (induction sep xs rule: py_join.induct)
  case (3 sep x y ys)
  then have "py_join sep (y # ys) \<noteq> []" by (intro py_join_nonempty) simp_all
  with 3 show ?case by simp
qed simp_all

lemma summary_single_period:
  "\<not> suffix ''..'' (py_join ''. '' (take 2 (sentence_fragments t)) @ ''.'')"
proof (cases "take 2 (sentence_fragments t) = []")
  case True
  then show ?thesis by (simp add: suffix_def)
next
  case False
  let ?fs = "take 2 (sentence_fragments t)"
  let ?b = "py_join ''. '' ?fs"
  have "last ?fs \<in> set (sentence_fragments t)"
    using False by (meson in_set_takeD last_in_set)
  then have l: "last ?fs \<noteq> []" "\<not> is_sentence_delim (last (last ?fs))"
    using sentence_fragments_pieces[of "last ?fs" t] by auto
  then have "last ?b = last (last ?fs)" "?b \<noteq> []"
    using False by (simp_all add: last_py_join py_join_nonempty)
  with l(2) have nl: "last ?b \<noteq> CHR ''.''" "?b \<noteq> []" by (auto simp: is_sentence_delim_def)
  show ?thesis
  proof
    assume "suffix ''..'' (?b @ ''.'')"
    then have "suffix [CHR ''.''] ?b"
      using snoc_suffix_snoc[of "[CHR ''.'']" "CHR ''.''" ?b "CHR ''.''"] by simp
    then obtain zs where "?b = zs @ [CHR ''.'']" by (auto simp: suffix_def)
    then have "last ?b = CHR ''.''" by simp
    with nl show False by simp
  qed
qed

lemma generate_documentation_returns:
  assumes "gemini_model self = Some model"
    and "model (build_prompt code_content language filename) (world s) = (Inr resp, w1)"
  shows "generate_documentation self code_content language filename s
          = (Inr (parse_response resp),
             \<lparr>calls = calls s @ [GenerateContent (build_prompt code_content language filename)],
              world = w1\<rparr>)"
  using assms by (simp add: generate_documentation_def perform_def Let_def)

text \<open>
  Claim C3. When the provider's response contains the summary marker exactly once, as
  \<open>left @ ''## Summary'' @ right\<close>, \<open>generate_documentation\<close> returns as documentation
  \<open>left\<close> with the documentation marker removed, trimmed, and as summary the first two
  non-empty lines of the trimmed \<open>right\<close>, joined by one space: at most two lines, and
  no line break in the summary.
\<close>

theorem generate_documentation_one_marker:
  assumes m: "gemini_model self = Some model"
    and r: "model (build_prompt code_content language filename) (world s)
              = (Inr (left @ ''## Summary'' @ right), w1)"
    and one: "count_occurrences ''## Summary'' (left @ ''## Summary'' @ right) = 1"
  shows "generate_documentation self code_content language filename s
           = (Inr \<lparr>documentation = py_strip (py_replace ''## Documentation'' [] left),
                   summary = py_join '' '' (take 2 (nonempty_lines (py_strip right)))\<rparr>,
              \<lparr>calls = calls s @ [GenerateContent (build_prompt code_content language filename)],
               world = w1\<rparr>)
         \<and> length (take 2 (nonempty_lines (py_strip right))) \<le> 2
         \<and> CHR 0x0A \<notin> set (py_join '' '' (take 2 (nonempty_lines (py_strip right))))"
proof -
  have "generate_documentation self code_content language filename s
          = (Inr (parse_response (left @ ''## Summary'' @ right)),
             \<lparr>calls = calls s @ [GenerateContent (build_prompt code_content language filename)],
              world = w1\<rparr>)"
    by (rule generate_documentation_returns[OF m r])
  moreover have "length (take 2 (nonempty_lines (py_strip right))) \<le> 2"
    by simp
  ultimately show ?thesis
    unfolding parse_response_one_marker[OF one]
    using summary_no_newline[of "py_strip right"] by blast
qed

theorem generate_documentation_one_marker_witness:
  "generate_documentation
     (ai_documentation_generator_init
        (scripted_sdk
           (Inr ((''## Documentation'' @ [CHR 0x0A] @ ''Body'' @ [CHR 0x0A]) @ ''## Summary''
                 @ ([CHR 0x0A] @ ''One.'' @ [CHR 0x0A] @ ''Two.'' @ [CHR 0x0A] @ ''Three'')))
           (Inr []) :: unit ai_sdk)
        [''GEMINI_API_KEY'' \<mapsto> ''g-key''] None)
     ''x = 1'' ''python'' ''a.py'' \<lparr>calls = [], world = ()\<rparr>
   = (Inr \<lparr>documentation = ''Body'', summary = ''One. Two.''\<rparr>,
      \<lparr>calls = [GenerateContent (build_prompt ''x = 1'' ''python'' ''a.py'')],
       world = ()\<rparr>)"
proof -
  let ?left = "''## Documentation'' @ [CHR 0x0A] @ ''Body'' @ [CHR 0x0A]"
  let ?right = "[CHR 0x0A] @ ''One.'' @ [CHR 0x0A] @ ''Two.'' @ [CHR 0x0A] @ ''Three''"
  let ?model = "\<lambda>(prompt::string) (w::unit). (Inr (?left @ ''## Summary'' @ ?right) :: string + string, w)"
  let ?A = "ai_documentation_generator_init
        (scripted_sdk (Inr (?left @ ''## Summary'' @ ?right)) (Inr []) :: unit ai_sdk)
        [''GEMINI_API_KEY'' \<mapsto> ''g-key''] None"
  let ?s = "\<lparr>calls = [], world = ()\<rparr> :: unit net"
  have m: "gemini_model ?A = Some ?model"
    by (simp add: ai_documentation_generator_init_def scripted_sdk_def py_or_def py_truthy_def
        del: append.simps)
  have r: "?model (build_prompt ''x = 1'' ''python'' ''a.py'') (world ?s)
             = (Inr (?left @ ''## Summary'' @ ?right), ())"
    by simp
  have one: "count_occurrences ''## Summary'' (?left @ ''## Summary'' @ ?right) = 1"
    by simp
  have d: "py_strip (py_replace ''## Documentation'' [] ?left) = ''Body''"
    by (simp add: py_strip_def py_isspace_def)
  have su: "py_join '' '' (take 2 (nonempty_lines (py_strip ?right))) = ''One. Two.''"
    by (simp add: nonempty_lines_def py_split_def py_strip_def py_isspace_def)
  have c: "calls ?s = []" by simp
  note w = generate_documentation_one_marker[where model = ?model and left = ?left
             and right = ?right and self = ?A and s = ?s, OF m r one, THEN conjunct1,
             unfolded d su c append_Nil]
  show ?thesis by (rule w)
qed

text \<open>
  Claim C4. When the provider's response contains the summary marker not at all or at
  least twice, \<open>generate_documentation\<close> returns the whole response as documentation,
  and as summary the first two sentence fragments of the response (the non-blank pieces
  between runs of \<open>.\<close>, \<open>!\<close>, \<open>?\<close>, each trimmed) joined by \<open>. \<close> and followed by one
  \<open>.\<close>; the summary does not end in two periods.
\<close>

theorem generate_documentation_fallback:
  assumes m: "gemini_model self = Some model"
    and r: "model (build_prompt code_content language filename) (world s)
              = (Inr full_response, w1)"
    and n: "count_occurrences ''## Summary'' full_response \<noteq> 1"
  shows "generate_documentation self code_content language filename s
           = (Inr \<lparr>documentation = full_response,
                   summary = py_join ''. '' (take 2 (sentence_fragments full_response)) @ ''.''\<rparr>,
              \<lparr>calls = calls s @ [GenerateContent (build_prompt code_content language filename)],
               world = w1\<rparr>)
         \<and> \<not> suffix ''..'' (py_join ''. '' (take 2 (sentence_fragments full_response)) @ ''.'')"
proof -
  have "generate_documentation self code_content language filename s
          = (Inr (parse_response full_response),
             \<lparr>calls = calls s @ [GenerateContent (build_prompt code_content language filename)],
              world = w1\<rparr>)"
    by (rule generate_documentation_returns[OF m r])
  then show ?thesis
    unfolding parse_response_fallback[OF n]
    using summary_single_period[of full_response] by blast
qed

theorem generate_documentation_fallback_witness:
  "generate_documentation
     (ai_documentation_generator_init
        (scripted_sdk (Inr ''Hi. Yo'') (Inr []) :: unit ai_sdk)
        [''GEMINI_API_KEY'' \<mapsto> ''g-key''] None)
     ''x = 1'' ''python'' ''a.py'' \<lparr>calls = [], world = ()\<rparr>
   = (Inr \<lparr>documentation = ''Hi. Yo'', summary = ''Hi. Yo.''\<rparr>,
      \<lparr>calls = [GenerateContent (build_prompt ''x = 1'' ''python'' ''a.py'')],
       world = ()\<rparr>)
   \<and> generate_documentation
     (ai_documentation_generator_init
        (scripted_sdk (Inr ''## SummaryA!## SummaryB'') (Inr []) :: unit ai_sdk)
        [''GEMINI_API_KEY'' \<mapsto> ''g-key''] None)
     ''x = 1'' ''python'' ''a.py'' \<lparr>calls = [], world = ()\<rparr>
   = (Inr \<lparr>documentation = ''## SummaryA!## SummaryB'',
            summary = ''## SummaryA. ## SummaryB.''\<rparr>,
      \<lparr>calls = [GenerateContent (build_prompt ''x = 1'' ''python'' ''a.py'')],
       world = ()\<rparr>)"
proof -
  let ?m1 = "\<lambda>(prompt::string) (w::unit). (Inr ''Hi. Yo'' :: string + string, w)"
  let ?m2 = "\<lambda>(prompt::string) (w::unit). (Inr ''## SummaryA!## SummaryB'' :: string + string, w)"
  let ?A1 = "ai_documentation_generator_init
        (scripted_sdk (Inr ''Hi. Yo'') (Inr []) :: unit ai_sdk)
        [''GEMINI_API_KEY'' \<mapsto> ''g-key''] None"
  let ?A2 = "ai_documentation_generator_init
        (scripted_sdk (Inr ''## SummaryA!## SummaryB'') (Inr []) :: unit ai_sdk)
        [''GEMINI_API_KEY'' \<mapsto> ''g-key''] None"
  let ?s = "\<lparr>calls = [], world = ()\<rparr> :: unit net"
  have m1: "gemini_model ?A1 = Some ?m1" and m2: "gemini_model ?A2 = Some ?m2"
    by (simp_all add: ai_documentation_generator_init_def scripted_sdk_def py_or_def
        py_truthy_def)
  have r1: "?m1 (build_prompt ''x = 1'' ''python'' ''a.py'') (world ?s) = (Inr ''Hi. Yo'', ())"
    and r2: "?m2 (build_prompt ''x = 1'' ''python'' ''a.py'') (world ?s)
               = (Inr ''## SummaryA!## SummaryB'', ())"
    by simp_all
  have n1: "count_occurrences ''## Summary'' ''Hi. Yo'' \<noteq> 1"
    and n2: "count_occurrences ''## Summary'' ''## SummaryA!## SummaryB'' \<noteq> 1"
    by simp_all
  have f1: "py_join ''. '' (take 2 (sentence_fragments ''Hi. Yo'')) @ ''.'' = ''Hi. Yo.''"
    and f2: "py_join ''. '' (take 2 (sentence_fragments ''## SummaryA!## SummaryB'')) @ ''.''
               = ''## SummaryA. ## SummaryB.''"
    by (simp_all add: sentence_fragments_def re_split_sentences_def is_sentence_delim_def
        py_strip_def py_isspace_def)
  have c: "calls ?s = []" by simp
  note w1 = generate_documentation_fallback[where model = ?m1 and self = ?A1 and s = ?s,
              OF m1 r1 n1, THEN conjunct1, unfolded f1 c append_Nil]
  note w2 = generate_documentation_fallback[where model = ?m2 and self = ?A2 and s = ?s,
              OF m2 r2 n2, THEN conjunct1, unfolded f2 c append_Nil]
  from w1 w2 show ?thesis by (rule conjI)
qed

end
